theory Spec2Isabelle
  imports Complex_Main
begin

section \<open>Numbers, vectors and matrices\<close>

text \<open>
  The program computes with C++ \<^verbatim>\<open>float\<close>. Here a \<^verbatim>\<open>float\<close> is a \<^typ>\<open>real\<close>, and
  there is no infinity and no NaN. Where a statement depends on the rounding of an
  operation, the rounding is written out with \<open>single\<close> below: in \<^verbatim>\<open>GetPosition\<close> and in
  the accumulator of the spawn step (the definitions named \<open>_f32\<close>). Everywhere else the
  arithmetic is exact, and the statements are about that exact reading of the code.
\<close>

text \<open>
  Rounding to single precision, to nearest with ties to even: \<open>binade x\<close> is the exponent
  of \<open>x\<close> (not below -126, where the subnormal numbers begin), the floats near \<open>x\<close> are the
  multiples of \<open>2 powi (binade x - 23)\<close>, and \<open>single x\<close> is the nearest of them. The
  program's value is an infinity when the magnitude of \<open>x\<close> reaches \<open>2 ^ 128 - 2 ^ 103\<close>; that
  case has no value here, and \<open>finite_single\<close> excludes it.
\<close>

definition round_even :: "real \<Rightarrow> int" where
  "round_even y =
     (if y - of_int \<lfloor>y\<rfloor> < 1 / 2 then \<lfloor>y\<rfloor>
      else if 1 / 2 < y - of_int \<lfloor>y\<rfloor> then \<lfloor>y\<rfloor> + 1
      else if even \<lfloor>y\<rfloor> then \<lfloor>y\<rfloor> else \<lfloor>y\<rfloor> + 1)"

definition binade :: "real \<Rightarrow> int" where
  "binade x = max \<lfloor>log 2 \<bar>x\<bar>\<rfloor> (- 126)"

definition single :: "real \<Rightarrow> real" where
  "single x =
     (if x = 0 then 0
      else of_int (round_even (x / 2 powi (binade x - 23))) * 2 powi (binade x - 23))"

definition finite_single :: "real \<Rightarrow> bool" where
  "finite_single x \<longleftrightarrow> \<bar>x\<bar> < 2 ^ 128 - 2 ^ 103"

record D3DXVECTOR3 =
  d3d_x :: real
  d3d_y :: real
  d3d_z :: real

text \<open>
  \<^verbatim>\<open>D3DXMATRIX\<close> has the sixteen members \<^verbatim>\<open>_11\<close> .. \<^verbatim>\<open>_44\<close> (row, column); a name
  cannot start with an underscore here, so \<^verbatim>\<open>_31\<close> is \<open>m31\<close>.
\<close>

record D3DXMATRIX =
  m11 :: real
  m12 :: real
  m13 :: real
  m14 :: real
  m21 :: real
  m22 :: real
  m23 :: real
  m24 :: real
  m31 :: real
  m32 :: real
  m33 :: real
  m34 :: real
  m41 :: real
  m42 :: real
  m43 :: real
  m44 :: real

definition D3DXMatrixIdentity :: D3DXMATRIX where
  "D3DXMatrixIdentity =
     \<lparr>m11 = 1, m12 = 0, m13 = 0, m14 = 0,
      m21 = 0, m22 = 1, m23 = 0, m24 = 0,
      m31 = 0, m32 = 0, m33 = 1, m34 = 0,
      m41 = 0, m42 = 0, m43 = 0, m44 = 1\<rparr>"

text \<open>\<^verbatim>\<open>operator*\<close> of \<^verbatim>\<open>D3DXMATRIX\<close>: the row-by-column product.\<close>

definition D3DXMatrixMultiply :: "D3DXMATRIX \<Rightarrow> D3DXMATRIX \<Rightarrow> D3DXMATRIX" where
  "D3DXMatrixMultiply A B =
     \<lparr>m11 = m11 A * m11 B + m12 A * m21 B + m13 A * m31 B + m14 A * m41 B,
      m12 = m11 A * m12 B + m12 A * m22 B + m13 A * m32 B + m14 A * m42 B,
      m13 = m11 A * m13 B + m12 A * m23 B + m13 A * m33 B + m14 A * m43 B,
      m14 = m11 A * m14 B + m12 A * m24 B + m13 A * m34 B + m14 A * m44 B,
      m21 = m21 A * m11 B + m22 A * m21 B + m23 A * m31 B + m24 A * m41 B,
      m22 = m21 A * m12 B + m22 A * m22 B + m23 A * m32 B + m24 A * m42 B,
      m23 = m21 A * m13 B + m22 A * m23 B + m23 A * m33 B + m24 A * m43 B,
      m24 = m21 A * m14 B + m22 A * m24 B + m23 A * m34 B + m24 A * m44 B,
      m31 = m31 A * m11 B + m32 A * m21 B + m33 A * m31 B + m34 A * m41 B,
      m32 = m31 A * m12 B + m32 A * m22 B + m33 A * m32 B + m34 A * m42 B,
      m33 = m31 A * m13 B + m32 A * m23 B + m33 A * m33 B + m34 A * m43 B,
      m34 = m31 A * m14 B + m32 A * m24 B + m33 A * m34 B + m34 A * m44 B,
      m41 = m41 A * m11 B + m42 A * m21 B + m43 A * m31 B + m44 A * m41 B,
      m42 = m41 A * m12 B + m42 A * m22 B + m43 A * m32 B + m44 A * m42 B,
      m43 = m41 A * m13 B + m42 A * m23 B + m43 A * m33 B + m44 A * m43 B,
      m44 = m41 A * m14 B + m42 A * m24 B + m43 A * m34 B + m44 A * m44 B\<rparr>"

text \<open>
  Modelled from the spec: the D3DX maths functions (\<^verbatim>\<open>d3dx10.h\<close>) are library code that
  is not under src/. The spec names them \<open>Rx\<close>, \<open>Ry\<close>, \<open>Rz\<close>, \<open>T\<close>, "matrix inverse" and
  "standard perspective projection"; the definitions below are the left-handed, row-vector
  matrices of that library.
\<close>

definition D3DXMatrixRotationX :: "real \<Rightarrow> D3DXMATRIX" where
  "D3DXMatrixRotationX a =
     \<lparr>m11 = 1, m12 = 0, m13 = 0, m14 = 0,
      m21 = 0, m22 = cos a, m23 = sin a, m24 = 0,
      m31 = 0, m32 = - sin a, m33 = cos a, m34 = 0,
      m41 = 0, m42 = 0, m43 = 0, m44 = 1\<rparr>"

definition D3DXMatrixRotationY :: "real \<Rightarrow> D3DXMATRIX" where
  "D3DXMatrixRotationY a =
     \<lparr>m11 = cos a, m12 = 0, m13 = - sin a, m14 = 0,
      m21 = 0, m22 = 1, m23 = 0, m24 = 0,
      m31 = sin a, m32 = 0, m33 = cos a, m34 = 0,
      m41 = 0, m42 = 0, m43 = 0, m44 = 1\<rparr>"

definition D3DXMatrixRotationZ :: "real \<Rightarrow> D3DXMATRIX" where
  "D3DXMatrixRotationZ a =
     \<lparr>m11 = cos a, m12 = sin a, m13 = 0, m14 = 0,
      m21 = - sin a, m22 = cos a, m23 = 0, m24 = 0,
      m31 = 0, m32 = 0, m33 = 1, m34 = 0,
      m41 = 0, m42 = 0, m43 = 0, m44 = 1\<rparr>"

definition D3DXMatrixTranslation :: "real \<Rightarrow> real \<Rightarrow> real \<Rightarrow> D3DXMATRIX" where
  "D3DXMatrixTranslation px py pz =
     \<lparr>m11 = 1, m12 = 0, m13 = 0, m14 = 0,
      m21 = 0, m22 = 1, m23 = 0, m24 = 0,
      m31 = 0, m32 = 0, m33 = 1, m34 = 0,
      m41 = px, m42 = py, m43 = pz, m44 = 1\<rparr>"

definition D3DXMatrixPerspectiveFovLH :: "real \<Rightarrow> real \<Rightarrow> real \<Rightarrow> real \<Rightarrow> D3DXMATRIX" where
  "D3DXMatrixPerspectiveFovLH fovy aspect zn zf =
     \<lparr>m11 = (1 / tan (fovy / 2)) / aspect, m12 = 0, m13 = 0, m14 = 0,
      m21 = 0, m22 = 1 / tan (fovy / 2), m23 = 0, m24 = 0,
      m31 = 0, m32 = 0, m33 = zf / (zf - zn), m34 = 1,
      m41 = 0, m42 = 0, m43 = - zn * zf / (zf - zn), m44 = 0\<rparr>"

definition det3 :: "real \<Rightarrow> real \<Rightarrow> real \<Rightarrow> real \<Rightarrow> real \<Rightarrow> real \<Rightarrow> real \<Rightarrow> real \<Rightarrow> real \<Rightarrow> real" where
  "det3 a b c d e f g h i = a * (e * i - f * h) - b * (d * i - f * g) + c * (d * h - e * g)"

definition D3DXMatrixDeterminant :: "D3DXMATRIX \<Rightarrow> real" where
  "D3DXMatrixDeterminant M =
       m11 M * det3 (m22 M) (m23 M) (m24 M) (m32 M) (m33 M) (m34 M) (m42 M) (m43 M) (m44 M)
     - m12 M * det3 (m21 M) (m23 M) (m24 M) (m31 M) (m33 M) (m34 M) (m41 M) (m43 M) (m44 M)
     + m13 M * det3 (m21 M) (m22 M) (m24 M) (m31 M) (m32 M) (m34 M) (m41 M) (m42 M) (m44 M)
     - m14 M * det3 (m21 M) (m22 M) (m23 M) (m31 M) (m32 M) (m33 M) (m41 M) (m42 M) (m43 M)"

text \<open>The adjugate: entry (i, j) is the cofactor of entry (j, i).\<close>

definition adjugate :: "D3DXMATRIX \<Rightarrow> D3DXMATRIX" where
  "adjugate M =
     \<lparr>m11 =   det3 (m22 M) (m23 M) (m24 M) (m32 M) (m33 M) (m34 M) (m42 M) (m43 M) (m44 M),
      m12 = - det3 (m12 M) (m13 M) (m14 M) (m32 M) (m33 M) (m34 M) (m42 M) (m43 M) (m44 M),
      m13 =   det3 (m12 M) (m13 M) (m14 M) (m22 M) (m23 M) (m24 M) (m42 M) (m43 M) (m44 M),
      m14 = - det3 (m12 M) (m13 M) (m14 M) (m22 M) (m23 M) (m24 M) (m32 M) (m33 M) (m34 M),
      m21 = - det3 (m21 M) (m23 M) (m24 M) (m31 M) (m33 M) (m34 M) (m41 M) (m43 M) (m44 M),
      m22 =   det3 (m11 M) (m13 M) (m14 M) (m31 M) (m33 M) (m34 M) (m41 M) (m43 M) (m44 M),
      m23 = - det3 (m11 M) (m13 M) (m14 M) (m21 M) (m23 M) (m24 M) (m41 M) (m43 M) (m44 M),
      m24 =   det3 (m11 M) (m13 M) (m14 M) (m21 M) (m23 M) (m24 M) (m31 M) (m33 M) (m34 M),
      m31 =   det3 (m21 M) (m22 M) (m24 M) (m31 M) (m32 M) (m34 M) (m41 M) (m42 M) (m44 M),
      m32 = - det3 (m11 M) (m12 M) (m14 M) (m31 M) (m32 M) (m34 M) (m41 M) (m42 M) (m44 M),
      m33 =   det3 (m11 M) (m12 M) (m14 M) (m21 M) (m22 M) (m24 M) (m41 M) (m42 M) (m44 M),
      m34 = - det3 (m11 M) (m12 M) (m14 M) (m21 M) (m22 M) (m24 M) (m31 M) (m32 M) (m34 M),
      m41 = - det3 (m21 M) (m22 M) (m23 M) (m31 M) (m32 M) (m33 M) (m41 M) (m42 M) (m43 M),
      m42 =   det3 (m11 M) (m12 M) (m13 M) (m31 M) (m32 M) (m33 M) (m41 M) (m42 M) (m43 M),
      m43 = - det3 (m11 M) (m12 M) (m13 M) (m21 M) (m22 M) (m23 M) (m41 M) (m42 M) (m43 M),
      m44 =   det3 (m11 M) (m12 M) (m13 M) (m21 M) (m22 M) (m23 M) (m31 M) (m32 M) (m33 M)\<rparr>"

definition scale_matrix :: "real \<Rightarrow> D3DXMATRIX \<Rightarrow> D3DXMATRIX" where
  "scale_matrix k M =
     \<lparr>m11 = k * m11 M, m12 = k * m12 M, m13 = k * m13 M, m14 = k * m14 M,
      m21 = k * m21 M, m22 = k * m22 M, m23 = k * m23 M, m24 = k * m24 M,
      m31 = k * m31 M, m32 = k * m32 M, m33 = k * m33 M, m34 = k * m34 M,
      m41 = k * m41 M, m42 = k * m42 M, m43 = k * m43 M, m44 = k * m44 M\<rparr>"

text \<open>
  \<^verbatim>\<open>D3DXMatrixInverse(pOut, NULL, pM)\<close> fails (returns \<^verbatim>\<open>NULL\<close> and leaves \<^verbatim>\<open>*pOut\<close>
  alone) when the determinant is zero: \<open>None\<close> here.
\<close>

definition D3DXMatrixInverse :: "D3DXMATRIX \<Rightarrow> D3DXMATRIX option" where
  "D3DXMatrixInverse M =
     (if D3DXMatrixDeterminant M = 0 then None
      else Some (scale_matrix (1 / D3DXMatrixDeterminant M) (adjugate M)))"

section \<open>Camera.h, Camera.cpp\<close>

datatype EStereoscopic = Monoscopic | StereoscopicLeft | StereoscopicRight

text \<open>
  \<^verbatim>\<open>EKeyCode\<close> is declared in Input.h, which is not under src/: the type below has the key
  codes the program names.
\<close>

datatype EKeyCode =
  Key_Up | Key_Down | Key_Left | Key_Right | Key_W | Key_S | Key_A | Key_D
  | Key_Back | Key_Escape

record CCamera =
  m_Position :: D3DXVECTOR3
  m_Rotation :: D3DXVECTOR3
  m_FOV :: real
  m_Aspect :: real
  m_NearClip :: real
  m_FarClip :: real
  m_WorldMatrix :: D3DXMATRIX
  m_ViewMatrix :: D3DXMATRIX
  m_ProjMatrix :: D3DXMATRIX
  m_ViewProjMatrix :: D3DXMATRIX

text \<open>Defines.h\<close>

definition MoveSpeed :: real where
  "MoveSpeed = 120"

definition RotSpeed :: real where
  "RotSpeed = 13 / 10"

text \<open>
  \<^verbatim>\<open>CCamera::UpdateMatrices\<close>. The globals \<^verbatim>\<open>g_ViewportWidth\<close> and
  \<^verbatim>\<open>g_ViewportHeight\<close> it reads are the first two arguments. The local \<^verbatim>\<open>aspect\<close> is
  computed and then not used, as in the source. The result of
  \<^verbatim>\<open>D3DXMatrixInverse\<close> is not checked by the source: on failure \<^verbatim>\<open>m_ViewMatrix\<close>
  keeps its old value.
\<close>

definition UpdateMatrices :: "int \<Rightarrow> int \<Rightarrow> CCamera \<Rightarrow> CCamera" where
  "UpdateMatrices g_ViewportWidth g_ViewportHeight c =
     (let matrixXRot = D3DXMatrixRotationX (d3d_x (m_Rotation c));
          matrixYRot = D3DXMatrixRotationY (d3d_y (m_Rotation c));
          matrixZRot = D3DXMatrixRotationZ (d3d_z (m_Rotation c));
          matrixTranslation =
            D3DXMatrixTranslation (d3d_x (m_Position c)) (d3d_y (m_Position c)) (d3d_z (m_Position c));
          world = D3DXMatrixMultiply
                    (D3DXMatrixMultiply (D3DXMatrixMultiply matrixZRot matrixXRot) matrixYRot)
                    matrixTranslation;
          view = (case D3DXMatrixInverse world of Some v \<Rightarrow> v | None \<Rightarrow> m_ViewMatrix c);
          aspect = real_of_int g_ViewportWidth / real_of_int g_ViewportHeight;
          proj = D3DXMatrixPerspectiveFovLH (m_FOV c) (m_Aspect c) (m_NearClip c) (m_FarClip c)
      in c\<lparr>m_WorldMatrix := world, m_ViewMatrix := view, m_ProjMatrix := proj,
           m_ViewProjMatrix := D3DXMatrixMultiply view proj\<rparr>)"

text \<open>
  The constructor. The members are uninitialised before it runs; \<open>junk\<close> stands for whatever
  the four matrix members hold then (only \<^verbatim>\<open>m_ViewMatrix\<close> could survive, if the inversion
  failed).
\<close>

definition CCamera_new ::
  "int \<Rightarrow> int \<Rightarrow> D3DXMATRIX \<Rightarrow> D3DXVECTOR3 \<Rightarrow> D3DXVECTOR3 \<Rightarrow> real \<Rightarrow> real \<Rightarrow> real \<Rightarrow> CCamera" where
  "CCamera_new g_ViewportWidth g_ViewportHeight junk pos rot fov nearClip farClip =
     UpdateMatrices g_ViewportWidth g_ViewportHeight
       \<lparr>m_Position = pos, m_Rotation = rot, m_FOV = fov, m_Aspect = 1333 / 1000,
        m_NearClip = nearClip, m_FarClip = farClip,
        m_WorldMatrix = junk, m_ViewMatrix = junk, m_ProjMatrix = junk,
        m_ViewProjMatrix = junk\<rparr>"

definition SetPosition :: "D3DXVECTOR3 \<Rightarrow> CCamera \<Rightarrow> CCamera" where
  "SetPosition pos c = c\<lparr>m_Position := pos\<rparr>"

definition SetRotation :: "D3DXVECTOR3 \<Rightarrow> CCamera \<Rightarrow> CCamera" where
  "SetRotation rot c = c\<lparr>m_Rotation := rot\<rparr>"

definition SetFOV :: "real \<Rightarrow> CCamera \<Rightarrow> CCamera" where
  "SetFOV fov c = c\<lparr>m_FOV := fov\<rparr>"

definition SetNearClip :: "real \<Rightarrow> CCamera \<Rightarrow> CCamera" where
  "SetNearClip nearClip c = c\<lparr>m_NearClip := nearClip\<rparr>"

definition SetFarClip :: "real \<Rightarrow> CCamera \<Rightarrow> CCamera" where
  "SetFarClip farClip c = c\<lparr>m_FarClip := farClip\<rparr>"

text \<open>
  \<^verbatim>\<open>interocular * (stereo == StereoscopicLeft ? -0.5f : 0.5f)\<close>. In \<^verbatim>\<open>GetPosition\<close> the
  product, each product with a member of the world matrix and each \<^verbatim>\<open>+=\<close> is rounded
  to a float, as the source computes them.
\<close>

definition stereo_offset :: "EStereoscopic \<Rightarrow> real \<Rightarrow> real" where
  "stereo_offset stereo interocular =
     interocular * (if stereo = StereoscopicLeft then - (1 / 2) else 1 / 2)"

definition GetPosition :: "CCamera \<Rightarrow> EStereoscopic \<Rightarrow> real \<Rightarrow> D3DXVECTOR3" where
  "GetPosition c stereo interocular =
     (if stereo = Monoscopic then m_Position c
      else let offset = single (stereo_offset stereo interocular);
               position = m_Position c
           in \<lparr>d3d_x = single (d3d_x position + single (m11 (m_WorldMatrix c) * offset)),
               d3d_y = single (d3d_y position + single (m12 (m_WorldMatrix c) * offset)),
               d3d_z = single (d3d_z position + single (m13 (m_WorldMatrix c) * offset))\<rparr>)"

definition offset_world :: "D3DXMATRIX \<Rightarrow> real \<Rightarrow> D3DXMATRIX" where
  "offset_world worldMatrix offset =
     worldMatrix\<lparr>m41 := m41 worldMatrix + m11 worldMatrix * offset,
                 m42 := m42 worldMatrix + m12 worldMatrix * offset,
                 m43 := m43 worldMatrix + m13 worldMatrix * offset\<rparr>"

definition GetWorldMatrix :: "CCamera \<Rightarrow> EStereoscopic \<Rightarrow> real \<Rightarrow> D3DXMATRIX" where
  "GetWorldMatrix c stereo interocular =
     (if stereo = Monoscopic then m_WorldMatrix c
      else offset_world (m_WorldMatrix c) (stereo_offset stereo interocular))"

text \<open>
  In \<^verbatim>\<open>GetViewMatrix\<close> the local \<^verbatim>\<open>viewMatrix\<close> is uninitialised; \<open>junk\<close> is what it
  holds if the inversion fails.
\<close>

definition GetViewMatrix :: "D3DXMATRIX \<Rightarrow> CCamera \<Rightarrow> EStereoscopic \<Rightarrow> real \<Rightarrow> D3DXMATRIX" where
  "GetViewMatrix junk c stereo interocular =
     (if stereo = Monoscopic then m_ViewMatrix c
      else case D3DXMatrixInverse (offset_world (m_WorldMatrix c) (stereo_offset stereo interocular)) of
             Some viewMatrix \<Rightarrow> viewMatrix
           | None \<Rightarrow> junk)"

definition GetProjectionMatrix :: "CCamera \<Rightarrow> EStereoscopic \<Rightarrow> real \<Rightarrow> real \<Rightarrow> D3DXMATRIX" where
  "GetProjectionMatrix c stereo interocular screenDistance =
     (if stereo = Monoscopic then m_ProjMatrix c
      else let offset = stereo_offset stereo interocular
           in (m_ProjMatrix c)\<lparr>m31 := (offset / screenDistance) / (m_Aspect c * tan (m_FOV c / 2))\<rparr>)"

definition GetViewProjectionMatrix ::
  "D3DXMATRIX \<Rightarrow> CCamera \<Rightarrow> EStereoscopic \<Rightarrow> real \<Rightarrow> real \<Rightarrow> D3DXMATRIX" where
  "GetViewProjectionMatrix junk c stereo interocular screenDistance =
     (if stereo = Monoscopic then m_ViewProjMatrix c
      else D3DXMatrixMultiply (GetViewMatrix junk c stereo interocular)
             (GetProjectionMatrix c stereo interocular screenDistance))"

text \<open>
  \<^verbatim>\<open>CCamera::Control\<close>. \<^verbatim>\<open>KeyHeld\<close> is declared in Input.h (not under src/): the set of
  keys held during the frame is the argument \<open>KeyHeld\<close>. The eight tests run one after the
  other, each on the result of the one before.
\<close>

definition turn_x :: "real \<Rightarrow> CCamera \<Rightarrow> CCamera" where
  "turn_x d c = c\<lparr>m_Rotation := (m_Rotation c)\<lparr>d3d_x := d3d_x (m_Rotation c) + d\<rparr>\<rparr>"

definition turn_y :: "real \<Rightarrow> CCamera \<Rightarrow> CCamera" where
  "turn_y d c = c\<lparr>m_Rotation := (m_Rotation c)\<lparr>d3d_y := d3d_y (m_Rotation c) + d\<rparr>\<rparr>"

definition move_by :: "real \<Rightarrow> real \<Rightarrow> real \<Rightarrow> CCamera \<Rightarrow> CCamera" where
  "move_by ax ay az c =
     c\<lparr>m_Position := \<lparr>d3d_x = d3d_x (m_Position c) + ax,
                      d3d_y = d3d_y (m_Position c) + ay,
                      d3d_z = d3d_z (m_Position c) + az\<rparr>\<rparr>"

definition when_held :: "bool \<Rightarrow> (CCamera \<Rightarrow> CCamera) \<Rightarrow> CCamera \<Rightarrow> CCamera" where
  "when_held b f c = (if b then f c else c)"

definition Control ::
  "(EKeyCode \<Rightarrow> bool) \<Rightarrow> real \<Rightarrow> EKeyCode \<Rightarrow> EKeyCode \<Rightarrow> EKeyCode \<Rightarrow> EKeyCode \<Rightarrow>
   EKeyCode \<Rightarrow> EKeyCode \<Rightarrow> EKeyCode \<Rightarrow> EKeyCode \<Rightarrow> CCamera \<Rightarrow> CCamera" where
  "Control KeyHeld frameTime turnUp turnDown turnLeft turnRight
       moveForward moveBackward moveLeft moveRight c =
     (let w = m_WorldMatrix c;
          c1 = when_held (KeyHeld turnDown) (turn_x (RotSpeed * frameTime)) c;
          c2 = when_held (KeyHeld turnUp) (turn_x (- (RotSpeed * frameTime))) c1;
          c3 = when_held (KeyHeld turnRight) (turn_y (RotSpeed * frameTime)) c2;
          c4 = when_held (KeyHeld turnLeft) (turn_y (- (RotSpeed * frameTime))) c3;
          c5 = when_held (KeyHeld moveRight)
                 (move_by (m11 w * MoveSpeed * frameTime) (m12 w * MoveSpeed * frameTime)
                    (m13 w * MoveSpeed * frameTime)) c4;
          c6 = when_held (KeyHeld moveLeft)
                 (move_by (- (m11 w * MoveSpeed * frameTime)) (- (m12 w * MoveSpeed * frameTime))
                    (- (m13 w * MoveSpeed * frameTime))) c5;
          c7 = when_held (KeyHeld moveForward)
                 (move_by (m31 w * MoveSpeed * frameTime) (m32 w * MoveSpeed * frameTime)
                    (m33 w * MoveSpeed * frameTime)) c6;
          c8 = when_held (KeyHeld moveBackward)
                 (move_by (- (m31 w * MoveSpeed * frameTime)) (- (m32 w * MoveSpeed * frameTime))
                    (- (m33 w * MoveSpeed * frameTime))) c7
      in c8)"

section \<open>DeferredSolution.cpp: the lights\<close>

text \<open>
  Modelled from the spec: \<^verbatim>\<open>CVector3\<close>, \<^verbatim>\<open>CVector4\<close>, \<^verbatim>\<open>CMatrix4x4\<close> and the helpers
  \<^verbatim>\<open>Length\<close>, \<^verbatim>\<open>MatrixRotationY\<close>, \<^verbatim>\<open>TransformVector\<close> and \<^verbatim>\<open>ToRadians\<close> are
  declared in CVector3.h, CVector4.h and MathDX.h, none of them under src/. The spec
  reads them as \<open>dist = |position|\<close> and "rotate the light's position vector about the
  vertical axis"; the rotation matrix is the one of \<^const>\<open>D3DXMatrixRotationY\<close>, applied to
  a row vector without the translation row.
\<close>

record CVector3 =
  cv_x :: real
  cv_y :: real
  cv_z :: real

record CVector4 =
  c4_x :: real
  c4_y :: real
  c4_z :: real
  c4_w :: real

type_synonym CMatrix4x4 = D3DXMATRIX

definition Length :: "CVector3 \<Rightarrow> real" where
  "Length v = sqrt (cv_x v * cv_x v + cv_y v * cv_y v + cv_z v * cv_z v)"

definition MatrixRotationY :: "real \<Rightarrow> CMatrix4x4" where
  "MatrixRotationY a = D3DXMatrixRotationY a"

definition TransformVector :: "CMatrix4x4 \<Rightarrow> CVector3 \<Rightarrow> CVector3" where
  "TransformVector M v =
     \<lparr>cv_x = cv_x v * m11 M + cv_y v * m21 M + cv_z v * m31 M,
      cv_y = cv_x v * m12 M + cv_y v * m22 M + cv_z v * m32 M,
      cv_z = cv_x v * m13 M + cv_y v * m23 M + cv_z v * m33 M\<rparr>"

definition ToRadians :: "real \<Rightarrow> real" where
  "ToRadians deg = deg * pi / 180"

text \<open>
  \<^verbatim>\<open>fmodf\<close> of the C library: the remainder of \<open>x / y\<close> with the quotient rounded towards
  zero.
\<close>

definition truncf :: "real \<Rightarrow> real" where
  "truncf r = real_of_int (if 0 \<le> r then \<lfloor>r\<rfloor> else \<lceil>r\<rceil>)"

definition fmodf :: "real \<Rightarrow> real \<Rightarrow> real" where
  "fmodf a b = a - b * truncf (a / b)"

record SPointLight =
  position :: CVector3
  radius :: real
  colour :: CVector4

definition LightSpawnFreq :: real where
  "LightSpawnFreq = 5000"

definition MaxPointLights :: int where
  "MaxPointLights = 25600"

definition FrameTimePeriod :: real where
  "FrameTimePeriod = 1"

text \<open>
  The globals of DeferredSolution.cpp that \<^verbatim>\<open>UpdateScene\<close> reads or writes, with the
  function's static local \<^verbatim>\<open>emit\<close>. \<open>draws\<close> counts the calls of \<^verbatim>\<open>Random\<close> made so
  far: the seven calls of the next light stand at the places \<open>draws\<close> to \<open>draws + 6\<close>
  of the program text. \<open>LightVertexBuffer\<close>
  is the memory the last upload wrote through \<^verbatim>\<open>mappedData.pData\<close>: the content of the
  vertex buffer when \<^verbatim>\<open>Map\<close> succeeded.
\<close>

record scene =
  MainCamera :: CCamera
  g_ViewportWidth :: int
  g_ViewportHeight :: int
  PointLights :: "SPointLight list"
  NumPointLights :: int
  emit :: real
  draws :: nat
  LightVertexBuffer :: "SPointLight list"
  Deferred :: bool
  SumFrameTimes :: real
  NumFrameTimes :: int
  AverageFrameTime :: real

text \<open>
  What one call of \<^verbatim>\<open>UpdateScene\<close> takes from outside: the lap time of the timer, the
  keys held and hit (Input.h), and what \<^verbatim>\<open>g_pd3dContext->Map\<close> answers: its
  \<^verbatim>\<open>HRESULT\<close> (negative on failure) and the memory \<^verbatim>\<open>mappedData.pData\<close> points to
  when \<^verbatim>\<open>CopyMemory\<close> runs. A call in which that pointer points to no memory (it is a
  local the source does not initialise, and \<^verbatim>\<open>Map\<close> need not set it when it fails) has
  undefined behaviour in C++ and is no value of this type.
\<close>

type_synonym HRESULT = int

definition S_OK :: HRESULT where
  "S_OK = 0"

definition FAILED :: "HRESULT \<Rightarrow> bool" where
  "FAILED hr \<longleftrightarrow> hr < 0"

record frame_input =
  frameTime :: real
  KeyHeld :: "EKeyCode \<Rightarrow> bool"
  KeyHit :: "EKeyCode \<Rightarrow> bool"
  Map_result :: HRESULT
  Map_pData :: "SPointLight list"

text \<open>
  \<^verbatim>\<open>Random(a, b)\<close> is declared in MathDX.h (not under src/). It is a parameter here:
  \<open>Random k a b\<close> is what the call \<^verbatim>\<open>Random(a, b)\<close> returns that stands at place \<open>k\<close> when
  the calls of the run are counted in the order of the program text. A new light takes
  seven calls. C++ does not fix the order in which the three calls in the arguments of one
  constructor are made; the count is by place, not by time, so no order is chosen here.
\<close>

type_synonym random_source = "nat \<Rightarrow> real \<Rightarrow> real \<Rightarrow> real"

definition new_light :: "random_source \<Rightarrow> nat \<Rightarrow> SPointLight" where
  "new_light Random k =
     \<lparr>position = \<lparr>cv_x = Random k (- 600) 600, cv_y = Random (k + 1) 5 40,
                   cv_z = Random (k + 2) (- 600) 600\<rparr>,
      radius = Random (k + 3) 20 40,
      colour = \<lparr>c4_x = Random (k + 4) (4 / 10) 1, c4_y = Random (k + 5) (4 / 10) 1,
                 c4_z = Random (k + 6) (4 / 10) 1, c4_w = 0\<rparr>\<rparr>"

text \<open>
  The body of \<^verbatim>\<open>if (NumPointLights < MaxPointLights)\<close>: the three members of
  \<^verbatim>\<open>PointLights[NumPointLights]\<close> are assigned, then the count goes up. The array has
  \<^const>\<open>MaxPointLights\<close> entries and the count starts at 1 and never goes down, so the index
  is in range.
\<close>

definition spawn_light :: "random_source \<Rightarrow> scene \<Rightarrow> scene" where
  "spawn_light Random s =
     s\<lparr>PointLights := (PointLights s)[nat (NumPointLights s) := new_light Random (draws s)],
       NumPointLights := NumPointLights s + 1,
       draws := draws s + 7\<rparr>"

text \<open>One turn of \<^verbatim>\<open>while (emit < 0)\<close>.\<close>

definition spawn_body :: "random_source \<Rightarrow> scene \<Rightarrow> scene" where
  "spawn_body Random s =
     (let s' = (if NumPointLights s < MaxPointLights then spawn_light Random s else s)
      in s'\<lparr>emit := emit s' + 1 / LightSpawnFreq\<rparr>)"

function spawn_loop :: "random_source \<Rightarrow> scene \<Rightarrow> scene" where
  "spawn_loop Random s = (if emit s < 0 then spawn_loop Random (spawn_body Random s) else s)"
  by pat_completeness auto
termination
proof (relation "measure (\<lambda>(Random, s). nat \<lceil>- emit s * LightSpawnFreq\<rceil>)")
  show "wf (measure (\<lambda>(Random, s). nat \<lceil>- emit s * LightSpawnFreq\<rceil>))"
    by simp
next
  fix Random :: random_source and s :: scene
  assume neg: "emit s < 0"
  have e: "emit (spawn_body Random s) = emit s + 1 / 5000"
    by (simp add: spawn_body_def spawn_light_def LightSpawnFreq_def Let_def)
  have "\<lceil>- (emit s + 1 / 5000) * 5000\<rceil> = \<lceil>- emit s * 5000\<rceil> - 1"
    by (simp add: algebra_simps)
  moreover from neg have "0 < \<lceil>- emit s * 5000\<rceil>"
    by (simp add: ceiling_less_iff)
  ultimately show "((Random, spawn_body Random s), (Random, s))
      \<in> measure (\<lambda>(Random, s). nat \<lceil>- emit s * LightSpawnFreq\<rceil>)"
    by (simp add: e LightSpawnFreq_def)
qed

declare spawn_loop.simps [simp del]

text \<open>\<^verbatim>\<open>emit -= frameTime; while (emit < 0) ...\<close>\<close>

definition spawn_step :: "random_source \<Rightarrow> real \<Rightarrow> scene \<Rightarrow> scene" where
  "spawn_step Random ft s = spawn_loop Random (s\<lparr>emit := emit s - ft\<rparr>)"

text \<open>
  The body of the loop over the lights, for one light (\<open>distance\<close> is the local
  \<^verbatim>\<open>dist\<close>).
\<close>

definition rotateSpeed :: "real \<Rightarrow> real" where
  "rotateSpeed distance = (fmodf distance 1 + - (1 / 2)) * 200 / (distance + 1 / 10)"

definition orbit_light :: "real \<Rightarrow> SPointLight \<Rightarrow> SPointLight" where
  "orbit_light ft l =
     (let distance = Length (position l)
      in l\<lparr>position :=
             TransformVector (MatrixRotationY (rotateSpeed distance * ft)) (position l)\<rparr>)"

text \<open>\<^verbatim>\<open>for (int i = 1; i < NumPointLights; i++)\<close>, started at \<open>i\<close>.\<close>

function orbit_loop :: "real \<Rightarrow> int \<Rightarrow> int \<Rightarrow> SPointLight list \<Rightarrow> SPointLight list" where
  "orbit_loop ft n i ls =
     (if i < n then orbit_loop ft n (i + 1) (ls[nat i := orbit_light ft (ls ! nat i)]) else ls)"
  by pat_completeness auto
termination
  by (relation "measure (\<lambda>(ft, n, i, ls). nat (n - i))") auto

declare orbit_loop.simps [simp del]

definition orbit_step :: "real \<Rightarrow> scene \<Rightarrow> scene" where
  "orbit_step ft s = s\<lparr>PointLights := orbit_loop ft (NumPointLights s) 1 (PointLights s)\<rparr>"

text \<open>
  \<^verbatim>\<open>CopyMemory(dst, src, n * sizeof(SPointLight))\<close>, counted in lights: the first \<open>n\<close>
  entries of the destination are overwritten.
\<close>

definition CopyMemory :: "SPointLight list \<Rightarrow> SPointLight list \<Rightarrow> nat \<Rightarrow> SPointLight list" where
  "CopyMemory dst src n = take n src @ drop n dst"

text \<open>
  \<^verbatim>\<open>Map\<close>, \<^verbatim>\<open>CopyMemory\<close>, \<^verbatim>\<open>Unmap\<close>. The source drops the \<^verbatim>\<open>HRESULT\<close> of
  \<^verbatim>\<open>Map\<close> and copies through \<^verbatim>\<open>mappedData.pData\<close> in every case: there is no branch
  on the result.
\<close>

definition upload_step :: "frame_input \<Rightarrow> scene \<Rightarrow> scene" where
  "upload_step fi s =
     s\<lparr>LightVertexBuffer :=
         CopyMemory (Map_pData fi) (PointLights s) (nat (NumPointLights s))\<rparr>"

definition toggle_step :: "frame_input \<Rightarrow> scene \<Rightarrow> scene" where
  "toggle_step fi s = (if KeyHit fi Key_Back then s\<lparr>Deferred := \<not> Deferred s\<rparr> else s)"

definition average_step :: "real \<Rightarrow> scene \<Rightarrow> scene" where
  "average_step ft s =
     (let s' = s\<lparr>SumFrameTimes := SumFrameTimes s + ft, NumFrameTimes := NumFrameTimes s + 1\<rparr>
      in if SumFrameTimes s' \<ge> FrameTimePeriod
         then s'\<lparr>AverageFrameTime := SumFrameTimes s' / real_of_int (NumFrameTimes s'),
                 SumFrameTimes := 0, NumFrameTimes := 0\<rparr>
         else s')"

definition camera_step :: "frame_input \<Rightarrow> scene \<Rightarrow> scene" where
  "camera_step fi s =
     s\<lparr>MainCamera :=
         UpdateMatrices (g_ViewportWidth s) (g_ViewportHeight s)
           (Control (KeyHeld fi) (frameTime fi) Key_Up Key_Down Key_Left Key_Right
              Key_W Key_S Key_A Key_D (MainCamera s))\<rparr>"

text \<open>
  \<^verbatim>\<open>UpdateScene\<close>: the steps in the order of the source. The text written to the window
  title at the end is not modelled.
\<close>

definition UpdateScene :: "random_source \<Rightarrow> frame_input \<Rightarrow> scene \<Rightarrow> scene" where
  "UpdateScene Random fi s =
     average_step (frameTime fi)
       (toggle_step fi
          (upload_step fi
             (orbit_step (frameTime fi)
                (spawn_step Random (frameTime fi)
                   (camera_step fi s)))))"






text \<open>
  The scene when \<^verbatim>\<open>InitScene\<close> has succeeded: the initialisers of the globals, and the
  camera made by \<^verbatim>\<open>new CCamera()\<close> with the defaults of Camera.h, then moved and turned.
  The first light is the one the array is initialised with; the rest of the array is zero.
\<close>

definition zero_light :: SPointLight where
  "zero_light = \<lparr>position = \<lparr>cv_x = 0, cv_y = 0, cv_z = 0\<rparr>, radius = 0,
                 colour = \<lparr>c4_x = 0, c4_y = 0, c4_z = 0, c4_w = 0\<rparr>\<rparr>"

definition seed_light :: SPointLight where
  "seed_light = \<lparr>position = \<lparr>cv_x = - 18000, cv_y = 4000, cv_z = 6000\<rparr>, radius = 25000,
                 colour = \<lparr>c4_x = 4 / 10, c4_y = 4 / 10, c4_z = 7 / 10, c4_w = 0\<rparr>\<rparr>"

definition initial_lights :: "SPointLight list" where
  "initial_lights = seed_light # replicate 25599 zero_light"

definition default_camera :: "int \<Rightarrow> int \<Rightarrow> CCamera" where
  "default_camera w h =
     CCamera_new w h D3DXMatrixIdentity \<lparr>d3d_x = 0, d3d_y = 0, d3d_z = 0\<rparr>
       \<lparr>d3d_x = 0, d3d_y = 0, d3d_z = 0\<rparr> (pi / 4) 1 50000"

definition InitScene :: "int \<Rightarrow> int \<Rightarrow> scene" where
  "InitScene w h =
     \<lparr>MainCamera =
        SetRotation \<lparr>d3d_x = ToRadians 8, d3d_y = ToRadians 115, d3d_z = 0\<rparr>
          (SetPosition \<lparr>d3d_x = - 320, d3d_y = 70, d3d_z = 100\<rparr> (default_camera w h)),
      g_ViewportWidth = w, g_ViewportHeight = h,
      PointLights = initial_lights, NumPointLights = 1,
      emit = 1 / LightSpawnFreq, draws = 0,
      LightVertexBuffer = initial_lights,
      Deferred = True, SumFrameTimes = 0, NumFrameTimes = 0, AverageFrameTime = - 1\<rparr>"

section \<open>DeferredSolution.cpp: the main loop\<close>

text \<open>
  One turn of the loop of \<^verbatim>\<open>wWinMain\<close> either takes a window message (\<open>Message quit\<close>,
  where \<open>quit\<close> says that it is \<^verbatim>\<open>WM_QUIT\<close>) or, when there is none, renders and updates
  (\<open>Idle\<close>, with what the update takes from outside). The loop is run on the list of what
  \<^verbatim>\<open>PeekMessage\<close> finds, turn by turn, and gives the calls it makes, in order, with the
  scene each \<^verbatim>\<open>RenderScene\<close> draws.
\<close>

datatype loop_input = Message bool | Idle frame_input

datatype event = RenderScene_call scene | UpdateScene_call real | DestroyWindow_call

definition idle_events :: "frame_input \<Rightarrow> scene \<Rightarrow> event list" where
  "idle_events fi s =
     [RenderScene_call s, UpdateScene_call (frameTime fi)]
     @ (if KeyHit fi Key_Escape then [DestroyWindow_call] else [])"

fun main_loop :: "random_source \<Rightarrow> loop_input list \<Rightarrow> scene \<Rightarrow> event list \<times> scene" where
  "main_loop Random [] s = ([], s)"
| "main_loop Random (Message quit # ins) s =
     (if quit then ([], s) else main_loop Random ins s)"
| "main_loop Random (Idle fi # ins) s =
     (let r = main_loop Random ins (UpdateScene Random fi s)
      in (idle_events fi s @ fst r, snd r))"

text \<open>The scenes after each of a list of updates, and the last of them.\<close>

fun run_updates :: "random_source \<Rightarrow> frame_input list \<Rightarrow> scene \<Rightarrow> scene" where
  "run_updates Random [] s = s"
| "run_updates Random (fi # fis) s = run_updates Random fis (UpdateScene Random fi s)"

fun light_counts :: "random_source \<Rightarrow> frame_input list \<Rightarrow> scene \<Rightarrow> int list" where
  "light_counts Random [] s = [NumPointLights s]"
| "light_counts Random (fi # fis) s =
     NumPointLights s # light_counts Random fis (UpdateScene Random fi s)"

section \<open>Vocabulary of the statements\<close>

text \<open>
  A matrix whose last column is \<open>(0, 0, 0, 1)\<close>, and the determinant of its upper left
  three by three block.
\<close>

definition affine :: "D3DXMATRIX \<Rightarrow> bool" where
  "affine M \<longleftrightarrow> m14 M = 0 \<and> m24 M = 0 \<and> m34 M = 0 \<and> m44 M = 1"

definition det_linear :: "D3DXMATRIX \<Rightarrow> real" where
  "det_linear M =
     det3 (m11 M) (m12 M) (m13 M) (m21 M) (m22 M) (m23 M) (m31 M) (m32 M) (m33 M)"

text \<open>The fifteen members of a matrix other than \<^verbatim>\<open>_31\<close>.\<close>

definition entries_but_31 :: "(D3DXMATRIX \<Rightarrow> real) list" where
  "entries_but_31 =
     [m11, m12, m13, m14, m21, m22, m23, m24, m32, m33, m34, m41, m42, m43, m44]"

definition vec3_minus :: "D3DXVECTOR3 \<Rightarrow> D3DXVECTOR3 \<Rightarrow> D3DXVECTOR3" where
  "vec3_minus a b = \<lparr>d3d_x = d3d_x a - d3d_x b, d3d_y = d3d_y a - d3d_y b, d3d_z = d3d_z a - d3d_z b\<rparr>"

definition vec3_uminus :: "D3DXVECTOR3 \<Rightarrow> D3DXVECTOR3" where
  "vec3_uminus a = \<lparr>d3d_x = - d3d_x a, d3d_y = - d3d_y a, d3d_z = - d3d_z a\<rparr>"

definition vec3_scale :: "real \<Rightarrow> D3DXVECTOR3 \<Rightarrow> D3DXVECTOR3" where
  "vec3_scale k a = \<lparr>d3d_x = k * d3d_x a, d3d_y = k * d3d_y a, d3d_z = k * d3d_z a\<rparr>"

text \<open>Row 0 of a matrix: the local right axis of the camera when it is the world matrix.\<close>

definition right_axis :: "D3DXMATRIX \<Rightarrow> D3DXVECTOR3" where
  "right_axis M = \<lparr>d3d_x = m11 M, d3d_y = m12 M, d3d_z = m13 M\<rparr>"

text \<open>
  The public members of \<^verbatim>\<open>CCamera\<close> that change a camera, as values, and a camera after
  a list of such calls.
\<close>

datatype camera_op =
    Do_SetPosition D3DXVECTOR3
  | Do_SetRotation D3DXVECTOR3
  | Do_SetFOV real
  | Do_SetNearClip real
  | Do_SetFarClip real
  | Do_UpdateMatrices int int
  | Do_Control "EKeyCode \<Rightarrow> bool" real EKeyCode EKeyCode EKeyCode EKeyCode
      EKeyCode EKeyCode EKeyCode EKeyCode

fun apply_camera_op :: "camera_op \<Rightarrow> CCamera \<Rightarrow> CCamera" where
  "apply_camera_op (Do_SetPosition v) c = SetPosition v c"
| "apply_camera_op (Do_SetRotation v) c = SetRotation v c"
| "apply_camera_op (Do_SetFOV a) c = SetFOV a c"
| "apply_camera_op (Do_SetNearClip a) c = SetNearClip a c"
| "apply_camera_op (Do_SetFarClip a) c = SetFarClip a c"
| "apply_camera_op (Do_UpdateMatrices w h) c = UpdateMatrices w h c"
| "apply_camera_op (Do_Control held ft k1 k2 k3 k4 k5 k6 k7 k8) c =
     Control held ft k1 k2 k3 k4 k5 k6 k7 k8 c"

fun run_camera_ops :: "camera_op list \<Rightarrow> CCamera \<Rightarrow> CCamera" where
  "run_camera_ops [] c = c"
| "run_camera_ops (op # ops) c = run_camera_ops ops (apply_camera_op op c)"

text \<open>
  What holds of the light array and the count in every scene the program reaches: at least
  the first light is live, the count is within the array, and the array has its declared
  size.
\<close>

definition scene_ok :: "scene \<Rightarrow> bool" where
  "scene_ok s \<longleftrightarrow>
     1 \<le> NumPointLights s \<and> NumPointLights s \<le> MaxPointLights
     \<and> length (PointLights s) = nat MaxPointLights"

text \<open>The number of turns \<^verbatim>\<open>while (emit < 0)\<close> takes when it is entered with \<open>e\<close>.\<close>

definition spawn_turns :: "real \<Rightarrow> nat" where
  "spawn_turns e = nat \<lceil>- e * LightSpawnFreq\<rceil>"

text \<open>
  Two scenes that differ at most in the entries of the light array from the live count on.
\<close>

definition same_live :: "scene \<Rightarrow> scene \<Rightarrow> bool" where
  "same_live s t \<longleftrightarrow>
     t\<lparr>PointLights := PointLights s\<rparr> = s
     \<and> length (PointLights t) = length (PointLights s)
     \<and> take (nat (NumPointLights s)) (PointLights t) = take (nat (NumPointLights s)) (PointLights s)"

text \<open>
  The scenes the loop hands to \<^verbatim>\<open>RenderScene\<close>, in order; the scenes as they stand
  before each of a list of updates; and the shape of a list of calls made of pairs of a
  render and the update that follows it (the calls that close the window set aside).
\<close>

fun rendered :: "event list \<Rightarrow> scene list" where
  "rendered [] = []"
| "rendered (RenderScene_call s # es) = s # rendered es"
| "rendered (UpdateScene_call ft # es) = rendered es"
| "rendered (DestroyWindow_call # es) = rendered es"

fun scenes_before :: "random_source \<Rightarrow> frame_input list \<Rightarrow> scene \<Rightarrow> scene list" where
  "scenes_before Random [] s = []"
| "scenes_before Random (fi # fis) s = s # scenes_before Random fis (UpdateScene Random fi s)"

fun render_then_update :: "event list \<Rightarrow> bool" where
  "render_then_update [] = True"
| "render_then_update (RenderScene_call s # UpdateScene_call ft # es) = render_then_update es"
| "render_then_update (DestroyWindow_call # es) = render_then_update es"
| "render_then_update es = False"

text \<open>
  The order the spec words: in every turn the update, then the render of the same frame.
\<close>

fun update_then_render :: "event list \<Rightarrow> bool" where
  "update_then_render [] = True"
| "update_then_render (UpdateScene_call ft # RenderScene_call s # es) = update_then_render es"
| "update_then_render (DestroyWindow_call # es) = update_then_render es"
| "update_then_render es = False"


text \<open>
  The arguments of the roundings of \<^verbatim>\<open>GetPosition\<close> for both eyes are in the range of
  the finite floats; and half the distance between the neighbouring floats at \<open>x\<close>.
\<close>

definition stereo_finite :: "CCamera \<Rightarrow> real \<Rightarrow> bool" where
  "stereo_finite c d \<longleftrightarrow>
     finite_single (d / 2)
     \<and> finite_single (m11 (m_WorldMatrix c) * single (d / 2))
     \<and> finite_single (m12 (m_WorldMatrix c) * single (d / 2))
     \<and> finite_single (m13 (m_WorldMatrix c) * single (d / 2))
     \<and> finite_single (d3d_x (m_Position c) + single (m11 (m_WorldMatrix c) * single (d / 2)))
     \<and> finite_single (d3d_x (m_Position c) - single (m11 (m_WorldMatrix c) * single (d / 2)))
     \<and> finite_single (d3d_y (m_Position c) + single (m12 (m_WorldMatrix c) * single (d / 2)))
     \<and> finite_single (d3d_y (m_Position c) - single (m12 (m_WorldMatrix c) * single (d / 2)))
     \<and> finite_single (d3d_z (m_Position c) + single (m13 (m_WorldMatrix c) * single (d / 2)))
     \<and> finite_single (d3d_z (m_Position c) - single (m13 (m_WorldMatrix c) * single (d / 2)))"

definition half_ulp :: "real \<Rightarrow> real" where
  "half_ulp x = 2 powi (binade x - 24)"

text \<open>Inputs for the examples.\<close>

definition no_keys :: "EKeyCode \<Rightarrow> bool" where
  "no_keys k = False"

definition Random_low :: random_source where
  "Random_low k a b = a"

definition E_FAIL :: HRESULT where
  "E_FAIL = - 2147467259"

definition frame_ms :: frame_input where
  "frame_ms = \<lparr>frameTime = 1 / 1000, KeyHeld = no_keys, KeyHit = no_keys,
               Map_result = S_OK, Map_pData = initial_lights\<rparr>"

definition full_scene :: scene where
  "full_scene = (InitScene 1280 960)\<lparr>NumPointLights := MaxPointLights\<rparr>"

text \<open>
  Two updates of 1/64 s that differ only in the result of \<^verbatim>\<open>Map\<close>; in both
  \<^verbatim>\<open>mappedData.pData\<close> points to memory for the whole array.
\<close>

definition frame_map_ok :: frame_input where
  "frame_map_ok = \<lparr>frameTime = 1 / 64, KeyHeld = no_keys, KeyHit = no_keys,
                   Map_result = S_OK, Map_pData = initial_lights\<rparr>"

definition frame_map_failed :: frame_input where
  "frame_map_failed = \<lparr>frameTime = 1 / 64, KeyHeld = no_keys, KeyHit = no_keys,
                       Map_result = E_FAIL, Map_pData = initial_lights\<rparr>"


text \<open>
  A camera at (1, 0, 0) that is not turned, and the float \<^verbatim>\<open>0.65f\<close>, the default
  interocular distance of Camera.h.
\<close>

definition camera_at_1 :: CCamera where
  "camera_at_1 =
     CCamera_new 1280 960 D3DXMatrixIdentity \<lparr>d3d_x = 1, d3d_y = 0, d3d_z = 0\<rparr>
       \<lparr>d3d_x = 0, d3d_y = 0, d3d_z = 0\<rparr> (pi / 4) 1 50000"

definition interocular_065f :: real where
  "interocular_065f = 10905190 / 16777216"

section \<open>Rounding to single precision\<close>

lemma round_even_int [simp]: "round_even (of_int n) = n"
  by (simp add: round_even_def)



lemma round_even_half: "round_even (of_int n + 1 / 2) = (if even n then n else n + 1)"
proof -
  have "\<lfloor>of_int n + (1 / 2 :: real)\<rfloor> = n" by linarith
  then show ?thesis by (simp add: round_even_def)
qed

lemma round_even_minus: "round_even (- y) = - round_even y"
proof (cases "y = of_int \<lfloor>y\<rfloor>")
  case True
  then obtain n where "y = of_int n" ..
  then have "- y = of_int (- n)" by simp
  then show ?thesis using \<open>y = of_int n\<close> by (simp only: round_even_int)
next
  case False
  then have fl: "\<lfloor>- y\<rfloor> = - \<lfloor>y\<rfloor> - 1"
    by (metis ceiling_altdef ceiling_def add_diff_cancel_right' minus_diff_eq uminus_add_conv_diff)
  show ?thesis
    unfolding round_even_def fl
    by (auto simp: algebra_simps)
qed

lemma round_even_error: "\<bar>of_int (round_even y) - y\<bar> \<le> 1 / 2"
  unfolding round_even_def by (auto; linarith)

lemma binade_eq:
  assumes "2 powi p \<le> \<bar>x\<bar>" and "\<bar>x\<bar> < 2 powi (p + 1)"
  shows "binade x = max p (- 126)"
proof -
  have pos: "0 < \<bar>x\<bar>"
    using assms(1) by (smt (verit) zero_less_power_int)
  have lo: "(2::real) powr real_of_int p = 2 powi p"
    by (rule powr_real_of_int') simp_all
  have hi: "(2::real) powr real_of_int (p + 1) = 2 powi (p + 1)"
    by (rule powr_real_of_int') simp_all
  have "\<lfloor>log 2 \<bar>x\<bar>\<rfloor> = p \<longleftrightarrow>
          2 powr real_of_int p \<le> \<bar>x\<bar> \<and> \<bar>x\<bar> < 2 powr real_of_int (p + 1)"
    using pos by (intro floor_log_eq_powr_iff) simp_all
  with assms have "\<lfloor>log 2 \<bar>x\<bar>\<rfloor> = p"
    by (simp only: lo hi)
  then show ?thesis by (simp add: binade_def)
qed

lemma single_binade:
  assumes "2 powi p \<le> \<bar>x\<bar>" and "\<bar>x\<bar> < 2 powi (p + 1)" and "- 126 \<le> p"
  shows "single x = of_int (round_even (x / 2 powi (p - 23))) * 2 powi (p - 23)"
proof -
  have "x \<noteq> 0"
    using assms(1) by (smt (verit) zero_less_power_int)
  moreover have "binade x = p"
    using binade_eq [OF assms(1,2)] assms(3) by simp
  ultimately show ?thesis by (simp add: single_def)
qed

lemma single_minus: "single (- x) = - single x"
  by (simp add: single_def binade_def round_even_minus)

lemma two_powi_pos: "0 < (2::real) powi k"
  by simp

lemma single_scaled:
  assumes "2 ^ (q + 23) \<le> \<bar>m\<bar>" and "\<bar>m\<bar> < 2 ^ (q + 24)" and "- 126 \<le> u + int q + 23"
  shows "single (of_int m * 2 powi u) = of_int (round_even (of_int m / 2 ^ q)) * 2 ^ q * 2 powi u"
proof -
  let ?x = "of_int m * (2::real) powi u"
  have abs: "\<bar>?x\<bar> = of_int \<bar>m\<bar> * 2 powi u"
    using two_powi_pos [of u] by (simp add: abs_mult)
  have split: "(2::real) powi (u + int q + k) = 2 ^ (q + nat k) * 2 powi u" if "0 \<le> k" for k
    using that by (simp add: power_int_add power_add power_int_nonneg_exp [of k] mult_ac)
  have lo: "2 powi (u + int q + 23) \<le> \<bar>?x\<bar>"
  proof -
    have "(2::real) ^ (q + 23) \<le> of_int \<bar>m\<bar>"
      using assms(1) by (metis of_int_le_iff of_int_numeral of_int_power)
    then show ?thesis
      using two_powi_pos [of u] by (simp add: abs split [of 23])
  qed
  have hi: "\<bar>?x\<bar> < 2 powi (u + int q + 23 + 1)"
  proof -
    have "of_int \<bar>m\<bar> < (2::real) ^ (q + 24)"
      using assms(2) by (metis of_int_less_iff of_int_numeral of_int_power)
    moreover have "(2::real) powi (u + int q + 23 + 1) = 2 ^ (q + 24) * 2 powi u"
      using split [of 24] by (simp add: add.assoc)
    ultimately show ?thesis
      using two_powi_pos [of u] by (simp add: abs)
  qed
  have "single ?x = of_int (round_even (?x / 2 powi (u + int q + 23 - 23))) * 2 powi (u + int q + 23 - 23)"
    using lo hi assms(3) by (rule single_binade)
  moreover have "(2::real) powi (u + int q + 23 - 23) = 2 ^ q * 2 powi u"
    using split [of 0] by simp
  ultimately show ?thesis
    using two_powi_pos [of u] by simp
qed

lemma single_exact:
  assumes "\<bar>m\<bar> < 2 ^ 24" and "- 149 \<le> u"
  shows "single (of_int m * 2 powi u) = of_int m * 2 powi u"
proof (cases "m = 0")
  case True
  then show ?thesis by (simp add: single_def)
next
  case False
  let ?x = "of_int m * (2::real) powi u"
  have abs: "\<bar>?x\<bar> = of_int \<bar>m\<bar> * 2 powi u"
    using two_powi_pos [of u] by (simp add: abs_mult)
  have pos: "0 < \<bar>?x\<bar>"
    using False two_powi_pos [of u] by simp
  define p where "p = \<lfloor>log 2 \<bar>?x\<bar>\<rfloor>"
  have "2 powr real_of_int p \<le> \<bar>?x\<bar> \<and> \<bar>?x\<bar> < 2 powr real_of_int (p + 1)"
    using floor_log_eq_powr_iff [of "\<bar>?x\<bar>" 2 p] pos by (simp add: p_def)
  moreover have "(2::real) powr real_of_int p = 2 powi p"
    and "(2::real) powr real_of_int (p + 1) = 2 powi (p + 1)"
    by (rule powr_real_of_int'; simp)+
  ultimately have lo: "2 powi p \<le> \<bar>?x\<bar>" and hi: "\<bar>?x\<bar> < 2 powi (p + 1)"
    by simp_all
  have "of_int \<bar>m\<bar> < (2::real) ^ 24"
    using assms(1) by (metis of_int_less_iff of_int_numeral of_int_power)
  then have "\<bar>?x\<bar> < 2 ^ 24 * 2 powi u"
    using two_powi_pos [of u] by (simp add: abs)
  also have "\<dots> = 2 powi (u + 24)"
    by (simp add: power_int_add)
  finally have "(2::real) powi p < 2 powi (u + 24)"
    using lo by simp
  then have p: "p < u + 24"
    using power_int_increasing [of "u + 24" p "2::real"] by (cases "p < u + 24") simp_all
  define b where "b = max p (- 126)"
  have b: "b \<le> u + 23" and b126: "- 126 \<le> b"
    using p assms(2) by (simp_all add: b_def)
  have nz: "?x \<noteq> 0" using pos by simp
  have bin: "binade ?x = b"
    using binade_eq [OF lo hi] by (simp add: b_def)
  have "?x / 2 powi (b - 23) = of_int m * 2 powi (u - (b - 23))"
    by (simp add: power_int_diff)
  also have "\<dots> = of_int m * 2 ^ nat (u - (b - 23))"
    using b by (simp add: power_int_nonneg_exp)
  also have "\<dots> = of_int (m * 2 ^ nat (u - (b - 23)))"
    by simp
  finally have q: "?x / 2 powi (b - 23) = of_int (m * 2 ^ nat (u - (b - 23)))" .
  have "single ?x = of_int (round_even (?x / 2 powi (b - 23))) * 2 powi (b - 23)"
    using nz by (simp add: single_def bin)
  also have "\<dots> = ?x / 2 powi (b - 23) * 2 powi (b - 23)"
    by (simp only: q round_even_int)
  also have "\<dots> = ?x"
    using two_powi_pos [of "b - 23"] by simp
  finally show ?thesis .
qed

lemma single_error: "\<bar>single x - x\<bar> \<le> 2 powi (binade x - 24)"
proof (cases "x = 0")
  case True
  then show ?thesis by (simp add: single_def)
next
  case False
  let ?u = "(2::real) powi (binade x - 23)"
  have u: "0 < ?u" by (rule two_powi_pos)
  have "single x - x = (of_int (round_even (x / ?u)) - x / ?u) * ?u"
    using False u by (simp add: single_def field_simps)
  then have "\<bar>single x - x\<bar> = \<bar>of_int (round_even (x / ?u)) - x / ?u\<bar> * ?u"
    using u by (simp add: abs_mult)
  also have "\<dots> \<le> 1 / 2 * ?u"
    using round_even_error [of "x / ?u"] u by (intro mult_right_mono) simp_all
  also have "\<dots> = 2 powi (binade x - 24)"
    by (simp add: power_int_diff)
  finally show ?thesis .
qed


section \<open>Matrices\<close>

lemma affine_det: "affine M \<Longrightarrow> D3DXMatrixDeterminant M = det_linear M"
  by (simp add: affine_def D3DXMatrixDeterminant_def det_linear_def det3_def algebra_simps)

lemma affine_mul: "affine A \<Longrightarrow> affine B \<Longrightarrow> affine (D3DXMatrixMultiply A B)"
  by (simp add: affine_def D3DXMatrixMultiply_def)

lemma det_linear_mul:
  "affine A \<Longrightarrow> det_linear (D3DXMatrixMultiply A B) = det_linear A * det_linear B"
  by (simp add: affine_def D3DXMatrixMultiply_def det_linear_def det3_def algebra_simps)

lemma sin_cos_unit: "sin a * sin a + cos a * cos a = (1::real)"
  using sin_cos_squared_add [of a] by (simp add: power2_eq_square)

lemma rotation_x_affine: "affine (D3DXMatrixRotationX a)"
  and rotation_x_det: "det_linear (D3DXMatrixRotationX a) = 1"
  using sin_cos_unit [of a]
  by (simp_all add: affine_def det_linear_def det3_def D3DXMatrixRotationX_def algebra_simps)

lemma rotation_y_affine: "affine (D3DXMatrixRotationY a)"
  and rotation_y_det: "det_linear (D3DXMatrixRotationY a) = 1"
  using sin_cos_unit [of a]
  by (simp_all add: affine_def det_linear_def det3_def D3DXMatrixRotationY_def algebra_simps)

lemma rotation_z_affine: "affine (D3DXMatrixRotationZ a)"
  and rotation_z_det: "det_linear (D3DXMatrixRotationZ a) = 1"
  using sin_cos_unit [of a]
  by (simp_all add: affine_def det_linear_def det3_def D3DXMatrixRotationZ_def algebra_simps)

lemma translation_affine: "affine (D3DXMatrixTranslation a b c)"
  and translation_det: "det_linear (D3DXMatrixTranslation a b c) = 1"
  by (simp_all add: affine_def det_linear_def det3_def D3DXMatrixTranslation_def)

lemma mul_adjugate:
  "D3DXMatrixMultiply M (adjugate M) = scale_matrix (D3DXMatrixDeterminant M) D3DXMatrixIdentity"
  unfolding D3DXMatrixMultiply_def adjugate_def scale_matrix_def D3DXMatrixDeterminant_def
    D3DXMatrixIdentity_def det3_def
  by (simp add: algebra_simps)

lemma adjugate_mul:
  "D3DXMatrixMultiply (adjugate M) M = scale_matrix (D3DXMatrixDeterminant M) D3DXMatrixIdentity"
  unfolding D3DXMatrixMultiply_def adjugate_def scale_matrix_def D3DXMatrixDeterminant_def
    D3DXMatrixIdentity_def det3_def
  by (simp add: algebra_simps)

lemma mul_scale_right:
  "D3DXMatrixMultiply A (scale_matrix k B) = scale_matrix k (D3DXMatrixMultiply A B)"
  by (simp add: D3DXMatrixMultiply_def scale_matrix_def algebra_simps)

lemma mul_scale_left:
  "D3DXMatrixMultiply (scale_matrix k A) B = scale_matrix k (D3DXMatrixMultiply A B)"
  by (simp add: D3DXMatrixMultiply_def scale_matrix_def algebra_simps)

lemma scale_back:
  "d \<noteq> 0 \<Longrightarrow> scale_matrix (1 / d) (scale_matrix d D3DXMatrixIdentity) = D3DXMatrixIdentity"
  by (simp add: scale_matrix_def D3DXMatrixIdentity_def)

lemma inverse_right:
  assumes "D3DXMatrixInverse M = Some V"
  shows "D3DXMatrixMultiply M V = D3DXMatrixIdentity"
proof -
  from assms have d: "D3DXMatrixDeterminant M \<noteq> 0"
    and V: "V = scale_matrix (1 / D3DXMatrixDeterminant M) (adjugate M)"
    by (auto simp: D3DXMatrixInverse_def split: if_splits)
  show ?thesis
    by (simp only: V mul_scale_right mul_adjugate scale_back [OF d])
qed

lemma inverse_left:
  assumes "D3DXMatrixInverse M = Some V"
  shows "D3DXMatrixMultiply V M = D3DXMatrixIdentity"
proof -
  from assms have d: "D3DXMatrixDeterminant M \<noteq> 0"
    and V: "V = scale_matrix (1 / D3DXMatrixDeterminant M) (adjugate M)"
    by (auto simp: D3DXMatrixInverse_def split: if_splits)
  show ?thesis
    by (simp only: V mul_scale_left adjugate_mul scale_back [OF d])
qed

section \<open>The camera\<close>

lemma world_det:
  "D3DXMatrixDeterminant
     (D3DXMatrixMultiply
        (D3DXMatrixMultiply (D3DXMatrixMultiply (D3DXMatrixRotationZ c) (D3DXMatrixRotationX a))
           (D3DXMatrixRotationY b))
        (D3DXMatrixTranslation px py pz)) = 1"
  (is "D3DXMatrixDeterminant ?W = 1")
proof -
  have "affine ?W"
    by (intro affine_mul rotation_x_affine rotation_y_affine rotation_z_affine translation_affine)
  moreover have "det_linear ?W = 1"
    by (simp add: det_linear_mul affine_mul rotation_x_affine rotation_y_affine
        rotation_z_affine rotation_x_det rotation_y_det rotation_z_det translation_det)
  ultimately show ?thesis by (simp add: affine_det)
qed

lemma UpdateMatrices_world:
  "m_WorldMatrix (UpdateMatrices w h c) =
     D3DXMatrixMultiply
       (D3DXMatrixMultiply
          (D3DXMatrixMultiply (D3DXMatrixRotationZ (d3d_z (m_Rotation c)))
             (D3DXMatrixRotationX (d3d_x (m_Rotation c))))
          (D3DXMatrixRotationY (d3d_y (m_Rotation c))))
       (D3DXMatrixTranslation (d3d_x (m_Position c)) (d3d_y (m_Position c)) (d3d_z (m_Position c)))"
  by (simp add: UpdateMatrices_def Let_def)

lemma UpdateMatrices_inverts:
  "D3DXMatrixInverse (m_WorldMatrix (UpdateMatrices w h c)) = Some (m_ViewMatrix (UpdateMatrices w h c))"
proof -
  have "D3DXMatrixDeterminant (m_WorldMatrix (UpdateMatrices w h c)) = 1"
    by (simp only: UpdateMatrices_world world_det)
  then have "D3DXMatrixInverse (m_WorldMatrix (UpdateMatrices w h c)) \<noteq> None"
    by (simp add: D3DXMatrixInverse_def)
  then show ?thesis
    by (auto simp add: UpdateMatrices_def Let_def split: option.splits)
qed

lemma UpdateMatrices_proj:
  "m_ProjMatrix (UpdateMatrices w h c) =
     D3DXMatrixPerspectiveFovLH (m_FOV c) (m_Aspect c) (m_NearClip c) (m_FarClip c)"
  by (simp add: UpdateMatrices_def Let_def)

lemma UpdateMatrices_viewproj:
  "m_ViewProjMatrix (UpdateMatrices w h c) =
     D3DXMatrixMultiply (m_ViewMatrix (UpdateMatrices w h c)) (m_ProjMatrix (UpdateMatrices w h c))"
  by (simp add: UpdateMatrices_def Let_def)

lemma UpdateMatrices_settings:
  "m_Position (UpdateMatrices w h c) = m_Position c"
  "m_Rotation (UpdateMatrices w h c) = m_Rotation c"
  "m_FOV (UpdateMatrices w h c) = m_FOV c"
  "m_Aspect (UpdateMatrices w h c) = m_Aspect c"
  "m_NearClip (UpdateMatrices w h c) = m_NearClip c"
  "m_FarClip (UpdateMatrices w h c) = m_FarClip c"
  by (simp_all add: UpdateMatrices_def Let_def)

lemma UpdateMatrices_viewport: "UpdateMatrices w h c = UpdateMatrices w' h' c"
  by (simp add: UpdateMatrices_def Let_def)

lemma UpdateMatrices_twice: "UpdateMatrices w' h' (UpdateMatrices w h c) = UpdateMatrices w h c"
proof -
  let ?c = "UpdateMatrices w h c"
  have w: "m_WorldMatrix (UpdateMatrices w' h' ?c) = m_WorldMatrix ?c"
    by (simp only: UpdateMatrices_world UpdateMatrices_settings)
  have v: "m_ViewMatrix (UpdateMatrices w' h' ?c) = m_ViewMatrix ?c"
    using UpdateMatrices_inverts [of w' h' ?c] UpdateMatrices_inverts [of w h c]
    by (simp only: w) simp
  have p: "m_ProjMatrix (UpdateMatrices w' h' ?c) = m_ProjMatrix ?c"
    by (simp only: UpdateMatrices_proj UpdateMatrices_settings)
  have vp: "m_ViewProjMatrix (UpdateMatrices w' h' ?c) = m_ViewProjMatrix ?c"
    by (simp only: UpdateMatrices_viewproj v p)
  show ?thesis
    by (rule CCamera.equality) (simp_all add: w v p vp UpdateMatrices_settings)
qed

text \<open>
  C1. For every camera, after \<^verbatim>\<open>UpdateMatrices\<close> the world matrix is
  \<open>Rz(rotation.z) \<cdot> Rx(rotation.x) \<cdot> Ry(rotation.y) \<cdot> T(position)\<close>; the inversion of the
  world matrix succeeds and the view matrix is its result, a two-sided inverse of the world
  matrix; the projection matrix is the left-handed perspective projection of the field of
  view, the aspect ratio and the near and far clip distances; and the combined matrix is
  view times projection.
\<close>

theorem UpdateMatrices_world_view_projection:
  "m_WorldMatrix (UpdateMatrices w h c) =
     D3DXMatrixMultiply
       (D3DXMatrixMultiply
          (D3DXMatrixMultiply (D3DXMatrixRotationZ (d3d_z (m_Rotation c)))
             (D3DXMatrixRotationX (d3d_x (m_Rotation c))))
          (D3DXMatrixRotationY (d3d_y (m_Rotation c))))
       (D3DXMatrixTranslation (d3d_x (m_Position c)) (d3d_y (m_Position c)) (d3d_z (m_Position c)))
   \<and> D3DXMatrixInverse (m_WorldMatrix (UpdateMatrices w h c)) = Some (m_ViewMatrix (UpdateMatrices w h c))
   \<and> D3DXMatrixMultiply (m_WorldMatrix (UpdateMatrices w h c)) (m_ViewMatrix (UpdateMatrices w h c))
       = D3DXMatrixIdentity
   \<and> D3DXMatrixMultiply (m_ViewMatrix (UpdateMatrices w h c)) (m_WorldMatrix (UpdateMatrices w h c))
       = D3DXMatrixIdentity
   \<and> m_ProjMatrix (UpdateMatrices w h c) =
       \<lparr>m11 = (1 / tan (m_FOV c / 2)) / m_Aspect c, m12 = 0, m13 = 0, m14 = 0,
        m21 = 0, m22 = 1 / tan (m_FOV c / 2), m23 = 0, m24 = 0,
        m31 = 0, m32 = 0, m33 = m_FarClip c / (m_FarClip c - m_NearClip c), m34 = 1,
        m41 = 0, m42 = 0,
        m43 = - m_NearClip c * m_FarClip c / (m_FarClip c - m_NearClip c), m44 = 0\<rparr>
   \<and> m_ViewProjMatrix (UpdateMatrices w h c) =
       D3DXMatrixMultiply (m_ViewMatrix (UpdateMatrices w h c)) (m_ProjMatrix (UpdateMatrices w h c))"
proof (intro conjI)
  show "m_ProjMatrix (UpdateMatrices w h c) =
       \<lparr>m11 = (1 / tan (m_FOV c / 2)) / m_Aspect c, m12 = 0, m13 = 0, m14 = 0,
        m21 = 0, m22 = 1 / tan (m_FOV c / 2), m23 = 0, m24 = 0,
        m31 = 0, m32 = 0, m33 = m_FarClip c / (m_FarClip c - m_NearClip c), m34 = 1,
        m41 = 0, m42 = 0,
        m43 = - m_NearClip c * m_FarClip c / (m_FarClip c - m_NearClip c), m44 = 0\<rparr>"
    by (simp only: UpdateMatrices_proj D3DXMatrixPerspectiveFovLH_def)
qed (rule UpdateMatrices_world UpdateMatrices_inverts UpdateMatrices_viewproj
      inverse_right [OF UpdateMatrices_inverts] inverse_left [OF UpdateMatrices_inverts])+

lemma tan_half_fov: "0 < fov \<Longrightarrow> fov < pi \<Longrightarrow> 0 < tan (fov / 2)"
  by (rule tan_gt_zero) simp_all

lemma default_camera_fov: "m_FOV (default_camera w h) = pi / 4"
  by (simp add: default_camera_def CCamera_new_def UpdateMatrices_settings)

lemma default_camera_aspect: "m_Aspect (default_camera w h) = 1333 / 1000"
  by (simp add: default_camera_def CCamera_new_def UpdateMatrices_settings)

text \<open>
  C6. Under \<open>0 < fov < \<pi>\<close>, \<^verbatim>\<open>GetProjectionMatrix\<close> for the left and for the right eye
  is the cached projection matrix with the member \<^verbatim>\<open>_31\<close> set to
  \<open>(offset / screenDistance) / (aspect \<cdot> tan (fov / 2))\<close>, the offset being minus half the
  interocular distance for the left eye and plus half of it for the right eye; the fifteen
  other members are those of the cached matrix; for \<open>Monoscopic\<close> the cached matrix is
  returned as it is. Under the precondition the tangent in the denominator is positive.
\<close>

theorem GetProjectionMatrix_shear:
  assumes "0 < m_FOV c" and "m_FOV c < pi"
  shows "GetProjectionMatrix c StereoscopicLeft interocular screenDistance =
           (m_ProjMatrix c)\<lparr>m31 := ((- interocular / 2) / screenDistance)
                                     / (m_Aspect c * tan (m_FOV c / 2))\<rparr>
       \<and> GetProjectionMatrix c StereoscopicRight interocular screenDistance =
           (m_ProjMatrix c)\<lparr>m31 := ((interocular / 2) / screenDistance)
                                     / (m_Aspect c * tan (m_FOV c / 2))\<rparr>
       \<and> (\<forall>stereo. \<forall>entry \<in> set entries_but_31.
             entry (GetProjectionMatrix c stereo interocular screenDistance) = entry (m_ProjMatrix c))
       \<and> GetProjectionMatrix c Monoscopic interocular screenDistance = m_ProjMatrix c
       \<and> 0 < tan (m_FOV c / 2)"
  using tan_half_fov [OF assms]
  by (simp add: GetProjectionMatrix_def stereo_offset_def entries_but_31_def)

theorem GetProjectionMatrix_shear_witness:
  "0 < m_FOV (default_camera 1280 960) \<and> m_FOV (default_camera 1280 960) < pi
   \<and> GetProjectionMatrix (default_camera 1280 960) StereoscopicLeft (65 / 100) 20 =
       (m_ProjMatrix (default_camera 1280 960))\<lparr>m31 := ((- (65 / 100) / 2) / 20)
                                     / (1333 / 1000 * tan (pi / 4 / 2))\<rparr>
   \<and> GetProjectionMatrix (default_camera 1280 960) StereoscopicRight (65 / 100) 20 =
       (m_ProjMatrix (default_camera 1280 960))\<lparr>m31 := (((65 / 100) / 2) / 20)
                                     / (1333 / 1000 * tan (pi / 4 / 2))\<rparr>"
proof -
  have a: "0 < m_FOV (default_camera 1280 960)" and b: "m_FOV (default_camera 1280 960) < pi"
    by (simp_all add: default_camera_fov)
  show ?thesis
    using a b GetProjectionMatrix_shear [OF a b, of "65 / 100" 20]
    by (simp add: default_camera_fov default_camera_aspect)
qed


lemma single_half_minus: "single (d * - (1 / 2)) = - single (d / 2)"
  using single_minus [of "d / 2"] by simp

lemma single_error_sum:
  "\<bar>(single (p + o') - p) + (single (p - o') - p)\<bar> \<le> half_ulp (p + o') + half_ulp (p - o')"
proof -
  have "(single (p + o') - p) + (single (p - o') - p)
          = (single (p + o') - (p + o')) + (single (p - o') - (p - o'))"
    by simp
  then show ?thesis
    using single_error [of "p + o'"] single_error [of "p - o'"]
    unfolding half_ulp_def by linarith
qed

lemma GetPosition_right:
  "GetPosition c StereoscopicRight d =
     \<lparr>d3d_x = single (d3d_x (m_Position c) + single (m11 (m_WorldMatrix c) * single (d / 2))),
      d3d_y = single (d3d_y (m_Position c) + single (m12 (m_WorldMatrix c) * single (d / 2))),
      d3d_z = single (d3d_z (m_Position c) + single (m13 (m_WorldMatrix c) * single (d / 2)))\<rparr>"
  by (simp add: GetPosition_def stereo_offset_def Let_def)

lemma GetPosition_left:
  "GetPosition c StereoscopicLeft d =
     \<lparr>d3d_x = single (d3d_x (m_Position c) - single (m11 (m_WorldMatrix c) * single (d / 2))),
      d3d_y = single (d3d_y (m_Position c) - single (m12 (m_WorldMatrix c) * single (d / 2))),
      d3d_z = single (d3d_z (m_Position c) - single (m13 (m_WorldMatrix c) * single (d / 2)))\<rparr>"
  by (simp add: GetPosition_def stereo_offset_def Let_def single_half_minus single_minus)

text \<open>
  C7, amended. \<^verbatim>\<open>GetPosition(Monoscopic, x)\<close> is the camera position, whatever \<open>x\<close>. For
  the right and the left eye the camera position is moved along row 0 of the world matrix
  by the same offsets with opposite signs: the offset of a coordinate is the float product
  of the member of row 0 with the float \<open>d / 2\<close>, it is added for the right eye and
  subtracted for the left eye, and each sum is rounded to a float. So the right-eye
  position minus the camera position is the negative of the left-eye position minus the
  camera position up to the rounding of the two sums: in each coordinate the two
  differences add up to at most half the distance between neighbouring floats at the one
  sum plus half that distance at the other. (All of it where the arguments of the
  roundings are in the range of the finite floats.)
\<close>

theorem GetPosition_rounded_offsets:
  assumes "stereo_finite c d"
  shows "GetPosition c Monoscopic d = m_Position c
       \<and> GetPosition c StereoscopicRight d =
           \<lparr>d3d_x = single (d3d_x (m_Position c) + single (m11 (m_WorldMatrix c) * single (d / 2))),
            d3d_y = single (d3d_y (m_Position c) + single (m12 (m_WorldMatrix c) * single (d / 2))),
            d3d_z = single (d3d_z (m_Position c) + single (m13 (m_WorldMatrix c) * single (d / 2)))\<rparr>
       \<and> GetPosition c StereoscopicLeft d =
           \<lparr>d3d_x = single (d3d_x (m_Position c) - single (m11 (m_WorldMatrix c) * single (d / 2))),
            d3d_y = single (d3d_y (m_Position c) - single (m12 (m_WorldMatrix c) * single (d / 2))),
            d3d_z = single (d3d_z (m_Position c) - single (m13 (m_WorldMatrix c) * single (d / 2)))\<rparr>
       \<and> \<bar>d3d_x (vec3_minus (GetPosition c StereoscopicRight d) (m_Position c))
            + d3d_x (vec3_minus (GetPosition c StereoscopicLeft d) (m_Position c))\<bar>
           \<le> half_ulp (d3d_x (m_Position c) + single (m11 (m_WorldMatrix c) * single (d / 2)))
             + half_ulp (d3d_x (m_Position c) - single (m11 (m_WorldMatrix c) * single (d / 2)))
       \<and> \<bar>d3d_y (vec3_minus (GetPosition c StereoscopicRight d) (m_Position c))
            + d3d_y (vec3_minus (GetPosition c StereoscopicLeft d) (m_Position c))\<bar>
           \<le> half_ulp (d3d_y (m_Position c) + single (m12 (m_WorldMatrix c) * single (d / 2)))
             + half_ulp (d3d_y (m_Position c) - single (m12 (m_WorldMatrix c) * single (d / 2)))
       \<and> \<bar>d3d_z (vec3_minus (GetPosition c StereoscopicRight d) (m_Position c))
            + d3d_z (vec3_minus (GetPosition c StereoscopicLeft d) (m_Position c))\<bar>
           \<le> half_ulp (d3d_z (m_Position c) + single (m13 (m_WorldMatrix c) * single (d / 2)))
             + half_ulp (d3d_z (m_Position c) - single (m13 (m_WorldMatrix c) * single (d / 2)))"
proof (intro conjI)
  show "GetPosition c Monoscopic d = m_Position c"
    by (simp add: GetPosition_def)
qed (simp_all only: GetPosition_right GetPosition_left vec3_minus_def D3DXVECTOR3.simps
      single_error_sum)

text \<open>
  The camera at (1, 0, 0) with the interocular distance \<^verbatim>\<open>0.65f\<close>: half of it is the float
  5452595 / 2^24; one minus it is a float, one plus it is not and is rounded up (a tie).
\<close>

lemma camera_at_1_fields:
  "m_Position camera_at_1 = \<lparr>d3d_x = 1, d3d_y = 0, d3d_z = 0\<rparr>"
  "m11 (m_WorldMatrix camera_at_1) = 1"
  "m12 (m_WorldMatrix camera_at_1) = 0"
  "m13 (m_WorldMatrix camera_at_1) = 0"
  by (simp_all add: camera_at_1_def CCamera_new_def UpdateMatrices_settings UpdateMatrices_world
      D3DXMatrixMultiply_def D3DXMatrixRotationX_def D3DXMatrixRotationY_def
      D3DXMatrixRotationZ_def D3DXMatrixTranslation_def)

lemma half_065f: "single (interocular_065f / 2) = 5452595 / 16777216"
proof -
  have "single (of_int 5452595 * 2 powi (- 24)) = of_int 5452595 * 2 powi (- 24)"
    by (rule single_exact) simp_all
  then show ?thesis by (simp add: interocular_065f_def power_int_minus)
qed

lemma right_065f: "single (1 + 5452595 / 16777216) = 11114906 / 8388608"
proof -
  have "single (of_int 22229811 * 2 powi (- 24))
          = of_int (round_even (of_int 22229811 / 2 ^ 1)) * 2 ^ 1 * 2 powi (- 24)"
    by (rule single_scaled) simp_all
  moreover have "round_even (of_int 22229811 / 2 ^ 1) = 11114906"
    using round_even_half [of 11114905] by simp
  ultimately show ?thesis by (simp add: power_int_minus)
qed

lemma left_065f: "single (1 - 5452595 / 16777216) = 11324621 / 16777216"
proof -
  have "single (of_int 11324621 * 2 powi (- 24)) = of_int 11324621 * 2 powi (- 24)"
    by (rule single_exact) simp_all
  then show ?thesis by (simp add: power_int_minus)
qed

lemma single_small: "single (5452595 / 16777216) = 5452595 / 16777216"
proof -
  have "single (of_int 5452595 * 2 powi (- 24)) = of_int 5452595 * 2 powi (- 24)"
    by (rule single_exact) simp_all
  then show ?thesis by (simp add: power_int_minus)
qed

lemma single_0 [simp]: "single 0 = 0"
  by (simp add: single_def)

lemma positions_065f:
  "GetPosition camera_at_1 StereoscopicRight interocular_065f =
     \<lparr>d3d_x = 11114906 / 8388608, d3d_y = 0, d3d_z = 0\<rparr>"
  "GetPosition camera_at_1 StereoscopicLeft interocular_065f =
     \<lparr>d3d_x = 11324621 / 16777216, d3d_y = 0, d3d_z = 0\<rparr>"
  by (simp_all only: GetPosition_right GetPosition_left camera_at_1_fields half_065f
      D3DXVECTOR3.simps mult_1 mult_zero_left single_small right_065f left_065f single_0
      add_0 diff_0_right)

lemma stereo_finite_065f: "stereo_finite camera_at_1 interocular_065f"
  unfolding stereo_finite_def camera_at_1_fields half_065f D3DXVECTOR3.simps
  by (simp add: finite_single_def interocular_065f_def single_small)

theorem GetPosition_rounded_offsets_witness:
  "stereo_finite camera_at_1 interocular_065f
   \<and> GetPosition camera_at_1 StereoscopicRight interocular_065f =
       \<lparr>d3d_x = 11114906 / 8388608, d3d_y = 0, d3d_z = 0\<rparr>
   \<and> GetPosition camera_at_1 StereoscopicLeft interocular_065f =
       \<lparr>d3d_x = 11324621 / 16777216, d3d_y = 0, d3d_z = 0\<rparr>
   \<and> GetPosition camera_at_1 Monoscopic interocular_065f = \<lparr>d3d_x = 1, d3d_y = 0, d3d_z = 0\<rparr>"
  using GetPosition_rounded_offsets [OF stereo_finite_065f] stereo_finite_065f
  by (simp add: positions_065f camera_at_1_fields)

text \<open>
  C7 as stated fails there: the right-eye difference is 1363149 / 2^22, the negative of the
  left-eye difference is 5452595 / 2^24 (both differences are floats, so it does not matter
  whether they are taken exactly or in single precision).
\<close>

theorem GetPosition_symmetric_counterexample:
  "vec3_minus (GetPosition camera_at_1 StereoscopicRight interocular_065f) (m_Position camera_at_1)
     = \<lparr>d3d_x = 1363149 / 4194304, d3d_y = 0, d3d_z = 0\<rparr>
   \<and> vec3_uminus (vec3_minus (GetPosition camera_at_1 StereoscopicLeft interocular_065f)
        (m_Position camera_at_1))
     = \<lparr>d3d_x = 5452595 / 16777216, d3d_y = 0, d3d_z = 0\<rparr>
   \<and> vec3_minus (GetPosition camera_at_1 StereoscopicRight interocular_065f) (m_Position camera_at_1)
     \<noteq> vec3_uminus (vec3_minus (GetPosition camera_at_1 StereoscopicLeft interocular_065f)
          (m_Position camera_at_1))"
  by (simp add: positions_065f camera_at_1_fields vec3_minus_def vec3_uminus_def)

text \<open>
  C9. For a camera made by the constructor from a position, rotation, field of view and
  clip distances and then updated, \<^verbatim>\<open>GetViewProjectionMatrix(Monoscopic)\<close> is the cached
  combined matrix (the one \<^verbatim>\<open>UpdateMatrices\<close> has just stored, see C1). The accessor is
  a function of the camera alone and leaves it as it is, so a second call gives the same
  matrix; updating the constructed camera, once or twice, changes nothing either.
\<close>

theorem GetViewProjectionMatrix_monoscopic:
  "GetViewProjectionMatrix junk'
       (UpdateMatrices w h (CCamera_new w0 h0 junk pos rot fov nearClip farClip))
       Monoscopic interocular screenDistance
     = m_ViewProjMatrix (UpdateMatrices w h (CCamera_new w0 h0 junk pos rot fov nearClip farClip))
   \<and> UpdateMatrices w h (CCamera_new w0 h0 junk pos rot fov nearClip farClip)
     = CCamera_new w0 h0 junk pos rot fov nearClip farClip
   \<and> GetViewProjectionMatrix junk'
       (UpdateMatrices w h (UpdateMatrices w h (CCamera_new w0 h0 junk pos rot fov nearClip farClip)))
       Monoscopic interocular screenDistance
     = GetViewProjectionMatrix junk'
       (UpdateMatrices w h (CCamera_new w0 h0 junk pos rot fov nearClip farClip))
       Monoscopic interocular screenDistance"
  by (simp add: GetViewProjectionMatrix_def UpdateMatrices_twice CCamera_new_def)

lemma apply_camera_op_aspect: "m_Aspect (apply_camera_op op c) = m_Aspect c"
  by (cases op)
    (simp_all add: SetPosition_def SetRotation_def SetFOV_def SetNearClip_def SetFarClip_def
      UpdateMatrices_settings Control_def Let_def when_held_def turn_x_def turn_y_def move_by_def)

lemma run_camera_ops_aspect: "m_Aspect (run_camera_ops ops c) = m_Aspect c"
  by (induction ops arbitrary: c) (simp_all add: apply_camera_op_aspect)

lemma CCamera_new_aspect: "m_Aspect (CCamera_new w0 h0 junk pos rot fov nearClip farClip) = 1333 / 1000"
  by (simp add: CCamera_new_def UpdateMatrices_settings)

text \<open>
  C10. The aspect ratio of a constructed camera is 1.333 and stays 1.333 under every
  sequence of calls of the setters, \<^verbatim>\<open>Control\<close> and \<^verbatim>\<open>UpdateMatrices\<close>; the projection
  matrix \<^verbatim>\<open>UpdateMatrices\<close> builds is the perspective projection for that 1.333; the result
  of \<^verbatim>\<open>UpdateMatrices\<close> is the same for every viewport width and height; and the
  denominator of the stereo shear of \<^verbatim>\<open>GetProjectionMatrix\<close> has the same 1.333.
\<close>

theorem projection_uses_fixed_aspect:
  "m_Aspect (run_camera_ops ops (CCamera_new w0 h0 junk pos rot fov nearClip farClip)) = 1333 / 1000
   \<and> m_ProjMatrix (UpdateMatrices w h
         (run_camera_ops ops (CCamera_new w0 h0 junk pos rot fov nearClip farClip))) =
       D3DXMatrixPerspectiveFovLH
         (m_FOV (run_camera_ops ops (CCamera_new w0 h0 junk pos rot fov nearClip farClip)))
         (1333 / 1000)
         (m_NearClip (run_camera_ops ops (CCamera_new w0 h0 junk pos rot fov nearClip farClip)))
         (m_FarClip (run_camera_ops ops (CCamera_new w0 h0 junk pos rot fov nearClip farClip)))
   \<and> UpdateMatrices w h c = UpdateMatrices w' h' c
   \<and> m31 (GetProjectionMatrix
            (run_camera_ops ops (CCamera_new w0 h0 junk pos rot fov nearClip farClip))
            StereoscopicLeft interocular screenDistance) =
       ((- interocular / 2) / screenDistance)
       / (1333 / 1000
          * tan (m_FOV (run_camera_ops ops (CCamera_new w0 h0 junk pos rot fov nearClip farClip)) / 2))
   \<and> m31 (GetProjectionMatrix
            (run_camera_ops ops (CCamera_new w0 h0 junk pos rot fov nearClip farClip))
            StereoscopicRight interocular screenDistance) =
       ((interocular / 2) / screenDistance)
       / (1333 / 1000
          * tan (m_FOV (run_camera_ops ops (CCamera_new w0 h0 junk pos rot fov nearClip farClip)) / 2))"
proof (intro conjI)
  show "UpdateMatrices w h c = UpdateMatrices w' h' c"
    by (rule UpdateMatrices_viewport)
qed (simp_all add: run_camera_ops_aspect CCamera_new_aspect UpdateMatrices_proj
      GetProjectionMatrix_def stereo_offset_def)

section \<open>The spawn loop\<close>

lemma spawn_loop_step: "emit s < 0 \<Longrightarrow> spawn_loop Random s = spawn_loop Random (spawn_body Random s)"
  by (subst spawn_loop.simps) simp

lemma spawn_loop_stop: "\<not> emit s < 0 \<Longrightarrow> spawn_loop Random s = s"
  by (subst spawn_loop.simps) simp

lemma spawn_body_emit: "emit (spawn_body Random s) = emit s + 1 / 5000"
  by (simp add: spawn_body_def spawn_light_def LightSpawnFreq_def Let_def)

lemma spawn_body_count:
  "NumPointLights (spawn_body Random s) =
     (if NumPointLights s < MaxPointLights then NumPointLights s + 1 else NumPointLights s)"
  by (simp add: spawn_body_def spawn_light_def Let_def)

lemma spawn_body_draws:
  "draws (spawn_body Random s) =
     (if NumPointLights s < MaxPointLights then draws s + 7 else draws s)"
  by (simp add: spawn_body_def spawn_light_def Let_def)

lemma spawn_body_lights:
  "PointLights (spawn_body Random s) =
     (if NumPointLights s < MaxPointLights
      then (PointLights s)[nat (NumPointLights s) := new_light Random (draws s)]
      else PointLights s)"
  by (simp add: spawn_body_def spawn_light_def Let_def)

lemma spawn_turns_nonneg: "0 \<le> e \<Longrightarrow> spawn_turns e = 0"
  by (simp add: spawn_turns_def LightSpawnFreq_def mult_le_0_iff)

lemma spawn_turns_neg: "e < 0 \<Longrightarrow> spawn_turns e = Suc (spawn_turns (e + 1 / 5000))"
proof -
  assume neg: "e < 0"
  have "\<lceil>- (e + 1 / 5000) * 5000\<rceil> = \<lceil>- e * 5000\<rceil> - 1"
    by (simp add: algebra_simps)
  moreover from neg have "0 < \<lceil>- e * 5000\<rceil>"
    by (simp add: ceiling_less_iff)
  ultimately have "nat \<lceil>- e * 5000\<rceil> = Suc (nat \<lceil>- (e + 1 / 5000) * 5000\<rceil>)"
    by linarith
  then show ?thesis
    by (simp add: spawn_turns_def LightSpawnFreq_def)
qed

lemma spawn_loop_emit:
  "emit (spawn_loop Random s) = emit s + real (spawn_turns (emit s)) / 5000"
proof (induction Random s rule: spawn_loop.induct)
  case (1 Random s)
  show ?case
  proof (cases "emit s < 0")
    case True
    then show ?thesis
      using "1.IH" [OF True]
      by (simp add: spawn_loop_step spawn_body_emit spawn_turns_neg field_simps)
  next
    case False
    then show ?thesis
      by (simp add: spawn_loop_stop spawn_turns_nonneg)
  qed
qed

lemma spawn_loop_count:
  "NumPointLights s \<le> MaxPointLights \<Longrightarrow>
     NumPointLights (spawn_loop Random s) =
       min (NumPointLights s + int (spawn_turns (emit s))) MaxPointLights"
proof (induction Random s rule: spawn_loop.induct)
  case (1 Random s)
  show ?case
  proof (cases "emit s < 0")
    case True
    have "NumPointLights (spawn_body Random s) \<le> MaxPointLights"
      using "1.prems" by (simp add: spawn_body_count)
    from "1.IH" [OF True this] True "1.prems" show ?thesis
      by (simp add: spawn_loop_step spawn_body_emit spawn_body_count spawn_turns_neg add.assoc)
  next
    case False
    with "1.prems" show ?thesis
      by (simp add: spawn_loop_stop spawn_turns_nonneg)
  qed
qed

lemma spawn_loop_mono:
  "NumPointLights s \<le> MaxPointLights \<Longrightarrow> NumPointLights s \<le> NumPointLights (spawn_loop Random s)"
  by (simp add: spawn_loop_count)

lemma spawn_loop_draws:
  "0 \<le> NumPointLights s \<Longrightarrow> NumPointLights s \<le> MaxPointLights \<Longrightarrow>
     draws (spawn_loop Random s) =
       draws s + 7 * nat (NumPointLights (spawn_loop Random s) - NumPointLights s)"
proof (induction Random s rule: spawn_loop.induct)
  case (1 Random s)
  show ?case
  proof (cases "emit s < 0")
    case True
    have le: "NumPointLights (spawn_body Random s) \<le> MaxPointLights"
      and ge: "0 \<le> NumPointLights (spawn_body Random s)"
      using "1.prems" by (simp_all add: spawn_body_count)
    have mono: "NumPointLights (spawn_body Random s) \<le> NumPointLights (spawn_loop Random (spawn_body Random s))"
      using le by (rule spawn_loop_mono)
    show ?thesis
    proof (cases "NumPointLights s < MaxPointLights")
      case spawn: True
      have "nat (NumPointLights (spawn_loop Random (spawn_body Random s)) - NumPointLights s)
          = Suc (nat (NumPointLights (spawn_loop Random (spawn_body Random s)) - (NumPointLights s + 1)))"
        using mono spawn by (simp add: spawn_body_count)
      with "1.IH" [OF True ge le] spawn show ?thesis
        by (simp add: spawn_loop_step [OF True] spawn_body_count spawn_body_draws)
    next
      case full: False
      with "1.IH" [OF True ge le] show ?thesis
        by (simp add: spawn_loop_step [OF True] spawn_body_count spawn_body_draws)
    qed
  next
    case False
    then show ?thesis
      by (simp add: spawn_loop_stop)
  qed
qed

lemma spawn_loop_length: "length (PointLights (spawn_loop Random s)) = length (PointLights s)"
proof (induction Random s rule: spawn_loop.induct)
  case (1 Random s)
  show ?case
  proof (cases "emit s < 0")
    case True
    from "1.IH" [OF True] True show ?thesis
      by (simp add: spawn_loop_step spawn_body_lights)
  next
    case False
    then show ?thesis by (simp add: spawn_loop_stop)
  qed
qed


text \<open>Entries from the new live count on are kept.\<close>

lemma spawn_loop_beyond:
  "0 \<le> NumPointLights s \<Longrightarrow> NumPointLights s \<le> MaxPointLights \<Longrightarrow>
   nat (NumPointLights (spawn_loop Random s)) \<le> i \<Longrightarrow>
     PointLights (spawn_loop Random s) ! i = PointLights s ! i"
proof (induction Random s rule: spawn_loop.induct)
  case (1 Random s)
  show ?case
  proof (cases "emit s < 0")
    case True
    note eq = spawn_loop_step [OF True]
    have ge: "0 \<le> NumPointLights (spawn_body Random s)"
      and le: "NumPointLights (spawn_body Random s) \<le> MaxPointLights"
      using "1.prems" by (simp_all add: spawn_body_count)
    have i: "nat (NumPointLights (spawn_loop Random (spawn_body Random s))) \<le> i"
      using "1.prems"(3) unfolding eq .
    have mono: "NumPointLights (spawn_body Random s) \<le> NumPointLights (spawn_loop Random (spawn_body Random s))"
      using le by (rule spawn_loop_mono)
    have "PointLights (spawn_body Random s) ! i = PointLights s ! i"
      using mono i "1.prems"(1) by (auto simp add: spawn_body_lights spawn_body_count split: if_splits)
    with "1.IH" [OF True ge le i] show ?thesis
      unfolding eq by simp
  next
    case False
    then show ?thesis by (simp add: spawn_loop_stop)
  qed
qed


lemma take_Suc_update:
  "length xs = length ys \<Longrightarrow> take n xs = take n ys \<Longrightarrow>
     take (Suc n) (xs[n := v]) = take (Suc n) (ys[n := v])"
  by (cases "n < length xs") (simp_all add: take_Suc_conv_app_nth)

lemma same_live_fields:
  assumes "same_live s t"
  shows "t = s\<lparr>PointLights := PointLights t\<rparr>"
    and "length (PointLights t) = length (PointLights s)"
    and "take (nat (NumPointLights s)) (PointLights t) = take (nat (NumPointLights s)) (PointLights s)"
proof -
  from assms have "t\<lparr>PointLights := PointLights s\<rparr> = s"
    by (simp add: same_live_def)
  then have "(t\<lparr>PointLights := PointLights s\<rparr>)\<lparr>PointLights := PointLights t\<rparr> = s\<lparr>PointLights := PointLights t\<rparr>"
    by simp
  then show "t = s\<lparr>PointLights := PointLights t\<rparr>" by simp
qed (use assms in \<open>simp_all add: same_live_def\<close>)

lemma same_live_body:
  assumes "same_live s t"
  shows "same_live (spawn_body Random s) (spawn_body Random t)"
proof -
  note f = same_live_fields [OF assms]
  define xs where "xs = PointLights t"
  have t: "t = s\<lparr>PointLights := xs\<rparr>" and len: "length xs = length (PointLights s)"
    and tk: "take (nat (NumPointLights s)) xs = take (nat (NumPointLights s)) (PointLights s)"
    using f by (simp_all add: xs_def)
  show ?thesis
  proof (cases "0 \<le> NumPointLights s")
    case True
    then have "nat (NumPointLights s + 1) = Suc (nat (NumPointLights s))" by simp
    with take_Suc_update [OF len tk] show ?thesis
      by (simp add: same_live_def t spawn_body_def spawn_light_def Let_def len tk)
  next
    case False
    then have "nat (NumPointLights s + 1) = 0" by simp
    then show ?thesis
      by (simp add: same_live_def t spawn_body_def spawn_light_def Let_def len tk)
  qed
qed

lemma same_live_emit: "same_live s t \<Longrightarrow> emit t = emit s"
  by (metis same_live_fields(1) scene.select_convs(6) scene.surjective scene.update_convs(4))

lemma same_live_loop:
  "same_live s t \<Longrightarrow> same_live (spawn_loop Random s) (spawn_loop Random t)"
proof (induction Random s arbitrary: t rule: spawn_loop.induct)
  case (1 Random s)
  show ?case
  proof (cases "emit s < 0")
    case True
    then have "emit t < 0" using same_live_emit [OF "1.prems"] by simp
    with True "1.IH" [OF True same_live_body [OF "1.prems"]] show ?thesis
      by (simp add: spawn_loop_step)
  next
    case False
    then have "\<not> emit t < 0" using same_live_emit [OF "1.prems"] by simp
    with False "1.prems" show ?thesis
      by (simp add: spawn_loop_stop)
  qed
qed

lemma same_live_step:
  "same_live s t \<Longrightarrow> same_live (spawn_step Random ft s) (spawn_step Random ft t)"
proof -
  assume st: "same_live s t"
  have "same_live (s\<lparr>emit := emit s - ft\<rparr>) (t\<lparr>emit := emit t - ft\<rparr>)"
    using same_live_fields [OF st] same_live_emit [OF st]
    by (simp add: same_live_def) (metis scene.update_convs(4) scene.update_convs(6) scene.surjective)
  then show ?thesis
    unfolding spawn_step_def by (rule same_live_loop)
qed

section \<open>The loop over the lights\<close>

lemma orbit_loop_step:
  "i < n \<Longrightarrow> orbit_loop ft n i ls = orbit_loop ft n (i + 1) (ls[nat i := orbit_light ft (ls ! nat i)])"
  by (subst orbit_loop.simps) simp

lemma orbit_loop_stop: "\<not> i < n \<Longrightarrow> orbit_loop ft n i ls = ls"
  by (subst orbit_loop.simps) simp

lemma orbit_loop_length: "length (orbit_loop ft n i ls) = length ls"
proof (induction ft n i ls rule: orbit_loop.induct)
  case (1 ft n i ls)
  show ?case
  proof (cases "i < n")
    case True
    with "1.IH" [OF True] show ?thesis by (simp add: orbit_loop_step)
  next
    case False
    then show ?thesis by (simp add: orbit_loop_stop)
  qed
qed



section \<open>One update\<close>

lemma camera_step_lights:
  "NumPointLights (camera_step fi s) = NumPointLights s"
  "PointLights (camera_step fi s) = PointLights s"
  "emit (camera_step fi s) = emit s"
  "draws (camera_step fi s) = draws s"
  by (simp_all add: camera_step_def)

lemma after_spawn:
  "NumPointLights (UpdateScene Random fi s) =
     NumPointLights (spawn_step Random (frameTime fi) (camera_step fi s))"
  "emit (UpdateScene Random fi s) = emit (spawn_step Random (frameTime fi) (camera_step fi s))"
  "draws (UpdateScene Random fi s) = draws (spawn_step Random (frameTime fi) (camera_step fi s))"
  "PointLights (UpdateScene Random fi s) =
     PointLights (orbit_step (frameTime fi) (spawn_step Random (frameTime fi) (camera_step fi s)))"
  by (simp_all add: UpdateScene_def average_step_def toggle_step_def upload_step_def
      orbit_step_def Let_def)

lemma spawn_step_emit:
  "emit (spawn_step Random ft s) = emit s - ft + real (spawn_turns (emit s - ft)) / 5000"
  by (simp add: spawn_step_def spawn_loop_emit)

lemma spawn_step_count:
  "NumPointLights s \<le> MaxPointLights \<Longrightarrow>
     NumPointLights (spawn_step Random ft s) =
       min (NumPointLights s + int (spawn_turns (emit s - ft))) MaxPointLights"
  by (simp add: spawn_step_def spawn_loop_count)

lemma spawn_step_length: "length (PointLights (spawn_step Random ft s)) = length (PointLights s)"
  by (simp add: spawn_step_def spawn_loop_length)


lemma spawn_step_beyond:
  "0 \<le> NumPointLights s \<Longrightarrow> NumPointLights s \<le> MaxPointLights \<Longrightarrow>
   nat (NumPointLights (spawn_step Random ft s)) \<le> i \<Longrightarrow>
     PointLights (spawn_step Random ft s) ! i = PointLights s ! i"
  using spawn_loop_beyond [of "s\<lparr>emit := emit s - ft\<rparr>" Random i]
  by (simp add: spawn_step_def)


lemma spawn_step_draws:
  "0 \<le> NumPointLights s \<Longrightarrow> NumPointLights s \<le> MaxPointLights \<Longrightarrow>
     draws (spawn_step Random ft s) =
       draws s + 7 * nat (NumPointLights (spawn_step Random ft s) - NumPointLights s)"
  using spawn_loop_draws [of "s\<lparr>emit := emit s - ft\<rparr>" Random]
  by (simp add: spawn_step_def)

lemma UpdateScene_count:
  "NumPointLights s \<le> MaxPointLights \<Longrightarrow>
     NumPointLights (UpdateScene Random fi s) =
       min (NumPointLights s + int (spawn_turns (emit s - frameTime fi))) MaxPointLights"
  by (simp add: after_spawn spawn_step_count camera_step_lights)

lemma UpdateScene_emit:
  "emit (UpdateScene Random fi s) =
     emit s - frameTime fi + real (spawn_turns (emit s - frameTime fi)) / 5000"
  by (simp add: after_spawn spawn_step_emit camera_step_lights)

lemma UpdateScene_length:
  "length (PointLights (UpdateScene Random fi s)) = length (PointLights s)"
  by (simp add: after_spawn orbit_step_def orbit_loop_length spawn_step_length camera_step_lights)

lemma UpdateScene_ok: "scene_ok s \<Longrightarrow> scene_ok (UpdateScene Random fi s)"
  by (simp add: scene_ok_def UpdateScene_count UpdateScene_length)


lemma run_updates_ok: "scene_ok s \<Longrightarrow> scene_ok (run_updates Random fis s)"
  by (induction fis arbitrary: s) (simp_all add: UpdateScene_ok)


lemma InitScene_ok: "scene_ok (InitScene w h)"
  by (simp add: scene_ok_def InitScene_def initial_lights_def MaxPointLights_def)

section \<open>Updates of one millisecond\<close>

lemma spawn_turns_4: "spawn_turns (- (1 / 1250)) = 4"
  by (simp add: spawn_turns_def LightSpawnFreq_def)

lemma spawn_turns_5: "spawn_turns (- (1 / 1000)) = 5"
  by (simp add: spawn_turns_def LightSpawnFreq_def)

lemma first_ms_update:
  assumes ft: "frameTime fi = 1 / 1000"
  shows "emit (UpdateScene Random fi (InitScene w h)) = 0
     \<and> NumPointLights (UpdateScene Random fi (InitScene w h)) = 5"
proof -
  have "emit (InitScene w h) - frameTime fi = 1 / 5000 - 1 / 1000"
    and "NumPointLights (InitScene w h) = 1"
    by (simp_all add: ft InitScene_def LightSpawnFreq_def)
  then show ?thesis
    by (simp add: UpdateScene_emit UpdateScene_count spawn_turns_4 MaxPointLights_def)
qed

lemma next_ms_update:
  assumes "emit s = 0" and ft: "frameTime fi = 1 / 1000"
    and "NumPointLights s + 5 \<le> MaxPointLights"
  shows "emit (UpdateScene Random fi s) = 0
     \<and> NumPointLights (UpdateScene Random fi s) = NumPointLights s + 5"
proof -
  have "emit s - frameTime fi = 0 - 1 / 1000"
    by (simp add: ft assms(1))
  with assms(3) show ?thesis
    by (simp add: UpdateScene_emit UpdateScene_count spawn_turns_5)
qed

section \<open>The light count over a run\<close>

lemma UpdateScene_mono:
  "scene_ok s \<Longrightarrow> NumPointLights s \<le> NumPointLights (UpdateScene Random fi s)"
  by (simp add: scene_ok_def UpdateScene_count)

lemma light_counts_bounds:
  "scene_ok s \<Longrightarrow> n \<in> set (light_counts Random fis s) \<Longrightarrow>
     NumPointLights s \<le> n \<and> n \<le> MaxPointLights"
proof (induction fis arbitrary: s)
  case Nil
  then show ?case by (simp add: scene_ok_def)
next
  case (Cons fi fis)
  show ?case
  proof (cases "n = NumPointLights s")
    case True
    with Cons.prems show ?thesis by (simp add: scene_ok_def)
  next
    case False
    with Cons.prems have "n \<in> set (light_counts Random fis (UpdateScene Random fi s))" by simp
    from Cons.IH [OF UpdateScene_ok [OF Cons.prems(1)] this] UpdateScene_mono [OF Cons.prems(1), of Random fi]
    show ?thesis by simp
  qed
qed

lemma light_counts_sorted: "scene_ok s \<Longrightarrow> sorted (light_counts Random fis s)"
proof (induction fis arbitrary: s)
  case Nil
  then show ?case by simp
next
  case (Cons fi fis)
  have "\<forall>n \<in> set (light_counts Random fis (UpdateScene Random fi s)). NumPointLights s \<le> n"
    using light_counts_bounds [OF UpdateScene_ok [OF Cons.prems]] UpdateScene_mono [OF Cons.prems, of Random fi]
    by fastforce
  with Cons.IH [OF UpdateScene_ok [OF Cons.prems]] show ?case by simp
qed

lemma spawn_loop_full:
  "MaxPointLights \<le> NumPointLights s \<Longrightarrow>
     NumPointLights (spawn_loop Random s) = NumPointLights s
     \<and> PointLights (spawn_loop Random s) = PointLights s
     \<and> draws (spawn_loop Random s) = draws s"
proof (induction Random s rule: spawn_loop.induct)
  case (1 Random s)
  show ?case
  proof (cases "emit s < 0")
    case True
    with "1.IH" [OF True] "1.prems" show ?thesis
      by (simp add: spawn_loop_step spawn_body_count spawn_body_lights spawn_body_draws)
  next
    case False
    then show ?thesis by (simp add: spawn_loop_stop)
  qed
qed

lemma InitScene_lights:
  "NumPointLights (InitScene w h) = 1"
  "emit (InitScene w h) = 1 / 5000"
  "PointLights (InitScene w h) = initial_lights"
  "draws (InitScene w h) = 0"
  by (simp_all add: InitScene_def LightSpawnFreq_def)

lemma full_scene_ok: "scene_ok full_scene"
  by (simp add: full_scene_def scene_ok_def InitScene_def initial_lights_def MaxPointLights_def)

text \<open>
  C3. From a scene in which the count is between 1 and \<^const>\<open>MaxPointLights\<close> and the
  array has \<^const>\<open>MaxPointLights\<close> entries, and for every list of updates, whatever their
  frame times (the non-negative ones among them): the live counts before the first update
  and after each update form a non-decreasing list, and none exceeds 25600. \<^verbatim>\<open>UpdateScene\<close>
  is a total function with no error result. When the count is at capacity the spawn step
  leaves the count, the array and the number of calls of \<^verbatim>\<open>Random\<close> as they are. After
  the spawn step every entry at an index from the new live count on holds what it held
  before (not written), and two scenes that differ only in such entries still differ only
  in such entries after it (not read).
\<close>

theorem light_count_monotone_bounded:
  assumes "scene_ok s"
  shows "sorted (light_counts Random fis s)
       \<and> (\<forall>n \<in> set (light_counts Random fis s). n \<le> 25600)
       \<and> scene_ok (UpdateScene Random fi s)
       \<and> (NumPointLights s = MaxPointLights \<longrightarrow>
            NumPointLights (spawn_step Random ft s) = MaxPointLights
            \<and> PointLights (spawn_step Random ft s) = PointLights s
            \<and> draws (spawn_step Random ft s) = draws s
            \<and> NumPointLights (UpdateScene Random fi s) = MaxPointLights)
       \<and> (\<forall>i. nat (NumPointLights (spawn_step Random ft s)) \<le> i \<longrightarrow>
            PointLights (spawn_step Random ft s) ! i = PointLights s ! i)
       \<and> (\<forall>t. same_live s t \<longrightarrow> same_live (spawn_step Random ft s) (spawn_step Random ft t))"
proof (intro conjI allI impI ballI)
  show "sorted (light_counts Random fis s)"
    using assms by (rule light_counts_sorted)
  show "n \<le> 25600" if "n \<in> set (light_counts Random fis s)" for n
    using light_counts_bounds [OF assms that] by (simp add: MaxPointLights_def)
  show "scene_ok (UpdateScene Random fi s)"
    using assms by (rule UpdateScene_ok)
  show "PointLights (spawn_step Random ft s) ! i = PointLights s ! i"
    if "nat (NumPointLights (spawn_step Random ft s)) \<le> i" for i
    using assms that by (intro spawn_step_beyond) (simp_all add: scene_ok_def)
  show "same_live (spawn_step Random ft s) (spawn_step Random ft t)" if "same_live s t" for t
    using that by (rule same_live_step)
next
  assume full: "NumPointLights s = MaxPointLights"
  then have "MaxPointLights \<le> NumPointLights (s\<lparr>emit := emit s - ft\<rparr>)" by simp
  from spawn_loop_full [OF this, of Random] full
  show "NumPointLights (spawn_step Random ft s) = MaxPointLights"
    and "PointLights (spawn_step Random ft s) = PointLights s"
    and "draws (spawn_step Random ft s) = draws s"
    by (simp_all add: spawn_step_def)
  from full show "NumPointLights (UpdateScene Random fi s) = MaxPointLights"
    by (simp add: UpdateScene_count)
qed

text \<open>
  Two updates of one millisecond from the initial scene; an entry beyond the live count;
  and a scene at capacity.
\<close>

lemma two_ms_counts:
  "light_counts Random_low [frame_ms, frame_ms] (InitScene 1280 960) = [1, 5, 10]"
proof -
  have ft: "frameTime frame_ms = 1 / 1000" by (simp add: frame_ms_def)
  note a = first_ms_update [OF ft, of Random_low 1280 960]
  have "NumPointLights (UpdateScene Random_low frame_ms (UpdateScene Random_low frame_ms (InitScene 1280 960))) = 10"
    using a next_ms_update [of "UpdateScene Random_low frame_ms (InitScene 1280 960)" frame_ms Random_low] ft
    by (simp add: MaxPointLights_def)
  with a show ?thesis by (simp add: InitScene_lights)
qed

theorem light_count_monotone_bounded_witness:
  "scene_ok (InitScene 1280 960)
   \<and> light_counts Random_low [frame_ms, frame_ms] (InitScene 1280 960) = [1, 5, 10]
   \<and> sorted (light_counts Random_low [frame_ms, frame_ms] (InitScene 1280 960))
   \<and> nat (NumPointLights (spawn_step Random_low (1 / 1000) (InitScene 1280 960))) \<le> 7
   \<and> PointLights (spawn_step Random_low (1 / 1000) (InitScene 1280 960)) ! 7
       = PointLights (InitScene 1280 960) ! 7
   \<and> same_live (InitScene 1280 960)
        ((InitScene 1280 960)\<lparr>PointLights := (PointLights (InitScene 1280 960))[7 := seed_light]\<rparr>)
   \<and> same_live (spawn_step Random_low (1 / 1000) (InitScene 1280 960))
        (spawn_step Random_low (1 / 1000)
           ((InitScene 1280 960)\<lparr>PointLights := (PointLights (InitScene 1280 960))[7 := seed_light]\<rparr>))
   \<and> scene_ok full_scene
   \<and> NumPointLights full_scene = MaxPointLights
   \<and> NumPointLights (spawn_step Random_low 1 full_scene) = MaxPointLights
   \<and> PointLights (spawn_step Random_low 1 full_scene) = PointLights full_scene
   \<and> NumPointLights (UpdateScene Random_low frame_ms full_scene) = MaxPointLights"
proof -
  have n: "NumPointLights (spawn_step Random_low (1 / 1000) (InitScene 1280 960)) = 5"
    using spawn_turns_4
    by (simp add: spawn_step_count InitScene_lights MaxPointLights_def)
  have sl: "same_live (InitScene 1280 960)
        ((InitScene 1280 960)\<lparr>PointLights := (PointLights (InitScene 1280 960))[7 := seed_light]\<rparr>)"
    by (simp add: same_live_def InitScene_lights)
  have full: "NumPointLights full_scene = MaxPointLights"
    by (simp add: full_scene_def)
  show ?thesis
    using light_count_monotone_bounded [where s = "InitScene 1280 960" and Random = Random_low
          and fis = "[frame_ms, frame_ms]" and fi = frame_ms and ft = "1 / 1000"]
      light_count_monotone_bounded [where s = full_scene and Random = Random_low
          and fis = "[]" and fi = frame_ms and ft = 1]
      n sl full InitScene_ok [of 1280 960] full_scene_ok two_ms_counts
    by simp
qed

section \<open>The accumulator in single precision\<close>







































section \<open>The orbit\<close>












section \<open>The main loop\<close>

lemma main_loop_idle:
  "fst (main_loop Random (Idle fi # ins) s) =
     idle_events fi s @ fst (main_loop Random ins (UpdateScene Random fi s))"
  "snd (main_loop Random (Idle fi # ins) s) = snd (main_loop Random ins (UpdateScene Random fi s))"
  by (simp_all add: Let_def)

lemma render_then_update_idle:
  "render_then_update (idle_events fi s @ es) = render_then_update es"
  by (simp add: idle_events_def)

lemma rendered_idle: "rendered (idle_events fi s @ es) = s # rendered es"
  by (simp add: idle_events_def)

lemma main_loop_render_then_update: "render_then_update (fst (main_loop Random ins s))"
proof (induction ins arbitrary: s)
  case Nil
  show ?case by simp
next
  case (Cons a ins)
  show ?case
  proof (cases a)
    case (Message quit)
    with Cons.IH show ?thesis by simp
  next
    case (Idle fi)
    with Cons.IH show ?thesis by (simp only: main_loop_idle render_then_update_idle)
  qed
qed

lemma main_loop_rendered:
  "rendered (fst (main_loop Random (map Idle fis) s)) = scenes_before Random fis s"
proof (induction fis arbitrary: s)
  case Nil
  show ?case by simp
next
  case (Cons fi fis)
  then show ?case by (simp only: list.map main_loop_idle rendered_idle scenes_before.simps)
qed

text \<open>
  C5, amended. A turn of the main loop that finds no window message calls
  \<^verbatim>\<open>RenderScene\<close> on the scene as it stands, then \<^verbatim>\<open>UpdateScene\<close> with the lap time, then
  \<^verbatim>\<open>DestroyWindow\<close> if Escape was hit, and goes on with the updated scene. So the calls
  of the loop are pairs of a render and the update after it, and the scene rendered in a
  turn is the one left by the update of the turn before (the initial scene in the first
  turn).
\<close>

theorem main_loop_renders_then_updates:
  "fst (main_loop Random (Idle fi # ins) s) =
     RenderScene_call s # UpdateScene_call (frameTime fi)
     # (if KeyHit fi Key_Escape then [DestroyWindow_call] else [])
     @ fst (main_loop Random ins (UpdateScene Random fi s))
   \<and> snd (main_loop Random (Idle fi # ins) s) = snd (main_loop Random ins (UpdateScene Random fi s))
   \<and> render_then_update (fst (main_loop Random ins s))
   \<and> rendered (fst (main_loop Random (map Idle fis) s)) = scenes_before Random fis s"
proof (intro conjI)
  show "fst (main_loop Random (Idle fi # ins) s) =
     RenderScene_call s # UpdateScene_call (frameTime fi)
     # (if KeyHit fi Key_Escape then [DestroyWindow_call] else [])
     @ fst (main_loop Random ins (UpdateScene Random fi s))"
    by (simp add: idle_events_def Let_def)
  show "snd (main_loop Random (Idle fi # ins) s) = snd (main_loop Random ins (UpdateScene Random fi s))"
    by (simp add: Let_def)
  show "render_then_update (fst (main_loop Random ins s))"
    by (rule main_loop_render_then_update)
  show "rendered (fst (main_loop Random (map Idle fis) s)) = scenes_before Random fis s"
    by (rule main_loop_rendered)
qed

text \<open>
  C5 as stated fails on one idle turn from the initial scene: the render comes first, and
  it draws the scene that has not been updated.
\<close>

theorem update_then_render_counterexample:
  "fst (main_loop Random_low [Idle frame_ms] (InitScene 1280 960)) =
     [RenderScene_call (InitScene 1280 960), UpdateScene_call (1 / 1000)]
   \<and> \<not> update_then_render (fst (main_loop Random_low [Idle frame_ms] (InitScene 1280 960)))"
  by (simp add: idle_events_def frame_ms_def no_keys_def Let_def)

section \<open>The upload\<close>

lemma UpdateScene_Map_result:
  "UpdateScene Random (fi\<lparr>Map_result := hr\<rparr>) s = UpdateScene Random fi s"
proof -
  have c: "camera_step (fi\<lparr>Map_result := hr\<rparr>) s = camera_step fi s"
    by (simp add: camera_step_def)
  show ?thesis
    by (simp add: UpdateScene_def c average_step_def toggle_step_def upload_step_def Let_def)
qed

lemma UpdateScene_buffer:
  "LightVertexBuffer (UpdateScene Random fi s) =
     CopyMemory (Map_pData fi) (PointLights (UpdateScene Random fi s))
       (nat (NumPointLights (UpdateScene Random fi s)))"
  by (simp add: after_spawn)
    (simp add: UpdateScene_def average_step_def toggle_step_def upload_step_def Let_def,
      simp add: orbit_step_def)

text \<open>
  C4, amended. \<^verbatim>\<open>UpdateScene\<close> drops the \<^verbatim>\<open>HRESULT\<close> of \<^verbatim>\<open>Map\<close> and has no error
  result: the scene it returns is the same whatever \<^verbatim>\<open>Map\<close> answered, a failure
  included. The copy is made in every case: the memory \<^verbatim>\<open>mappedData.pData\<close> points to
  receives the whole live prefix of the light array.
\<close>

theorem Map_result_discarded:
  "UpdateScene Random (fi\<lparr>Map_result := hr\<rparr>) s = UpdateScene Random fi s
   \<and> LightVertexBuffer (UpdateScene Random fi s) =
       take (nat (NumPointLights (UpdateScene Random fi s))) (PointLights (UpdateScene Random fi s))
         @ drop (nat (NumPointLights (UpdateScene Random fi s))) (Map_pData fi)"
proof (intro conjI)
  show "UpdateScene Random (fi\<lparr>Map_result := hr\<rparr>) s = UpdateScene Random fi s"
    by (rule UpdateScene_Map_result)
  show "LightVertexBuffer (UpdateScene Random fi s) =
       take (nat (NumPointLights (UpdateScene Random fi s))) (PointLights (UpdateScene Random fi s))
         @ drop (nat (NumPointLights (UpdateScene Random fi s))) (Map_pData fi)"
    by (simp only: UpdateScene_buffer CopyMemory_def)
qed

text \<open>
  C4 as stated fails on an update from the initial scene in which \<^verbatim>\<open>Map\<close> answers
  \<^verbatim>\<open>E_FAIL\<close>: what \<^verbatim>\<open>UpdateScene\<close> returns is what it returns when \<^verbatim>\<open>Map\<close> answers
  \<^verbatim>\<open>S_OK\<close>, so the failure does not reach the caller.
\<close>

theorem failed_Map_counterexample:
  "FAILED (Map_result frame_map_failed)
   \<and> \<not> FAILED (Map_result frame_map_ok)
   \<and> UpdateScene Random_low frame_map_failed (InitScene 1280 960)
       = UpdateScene Random_low frame_map_ok (InitScene 1280 960)"
proof -
  have f: "frame_map_failed = frame_map_ok\<lparr>Map_result := E_FAIL\<rparr>"
    by (simp add: frame_map_failed_def frame_map_ok_def)
  have "UpdateScene Random_low frame_map_failed (InitScene 1280 960)
       = UpdateScene Random_low frame_map_ok (InitScene 1280 960)"
    unfolding f by (rule UpdateScene_Map_result)
  then show ?thesis
    by (simp add: frame_map_failed_def frame_map_ok_def FAILED_def E_FAIL_def S_OK_def)
qed

end
